theory Spec2Isabelle
  imports Main "HOL-Library.Word"
begin

section \<open>The D12 capture interface of Looking Glass (d12.c)\<close>

text \<open>
  A shallow embedding of \<^verbatim>\<open>host/platform/Windows/capture/D12/d12.c\<close>. The file drives
  Direct3D 12, DXGI, the capture backend and the frame buffer helpers, none of which it
  defines: a call that leaves the file with an effect is a constructor of a datatype of
  calls (\<open>call\<close>, \<open>pointer_call\<close>, \<open>init_call\<close>), appended in program order to a log, and
  what such a call hands back is a field of a record of externals the function takes as
  an argument. COM scope bookkeeping
  (\<^verbatim>\<open>comRef_scopePush\<close>, \<^verbatim>\<open>comRef_scopePop\<close>) and the \<^verbatim>\<open>DEBUG_*\<close> log lines change
  nothing a function returns or stores and are left out.
\<close>

subsection \<open>Machine types\<close>

text \<open>
  The host is built for 64-bit Windows: \<^verbatim>\<open>size_t\<close> and \<^verbatim>\<open>uintptr_t\<close> are 64 bits wide,
  \<^verbatim>\<open>unsigned\<close> and \<^verbatim>\<open>UINT\<close> are 32 bits wide. Arithmetic on them wraps around.
\<close>

type_synonym UINT = "32 word"
type_synonym UINT64 = "64 word"
type_synonym size_t = "64 word"
type_synonym uintptr_t = "64 word"
type_synonym HRESULT = "32 word"
type_synonym DXGI_FORMAT = "32 word"

text \<open>\<^verbatim>\<open>FAILED(hr)\<close>: an \<^verbatim>\<open>HRESULT\<close> is a signed 32-bit value, negative on failure.\<close>

definition FAILED :: "HRESULT \<Rightarrow> bool" where
  "FAILED hr = (sint hr < 0)"

definition S_OK :: HRESULT where
  "S_OK = 0"

definition E_FAIL :: HRESULT where
  "E_FAIL = 0x80004005"

text \<open>
  \<^verbatim>\<open>CaptureResult\<close> is declared in \<^verbatim>\<open>interface/capture.h\<close>; this file names
  \<^verbatim>\<open>CAPTURE_RESULT_OK\<close> and \<^verbatim>\<open>CAPTURE_RESULT_ERROR\<close> and passes any other status of
  the backend through.
\<close>

datatype CaptureResult =
  CAPTURE_RESULT_OK | CAPTURE_RESULT_REINIT | CAPTURE_RESULT_TIMEOUT | CAPTURE_RESULT_ERROR

subsection \<open>Direct3D 12 resources\<close>

record D3D12_RESOURCE_DESC =
  Dimension :: UINT
  Alignment :: UINT64
  Width :: UINT64
  Height :: UINT
  DepthOrArraySize :: "16 word"
  MipLevels :: "16 word"
  Format :: DXGI_FORMAT
  SampleDesc_Count :: UINT
  SampleDesc_Quality :: UINT
  Layout :: UINT
  Flags :: UINT

definition D3D12_RESOURCE_DIMENSION_BUFFER :: UINT where
  "D3D12_RESOURCE_DIMENSION_BUFFER = 1"

definition D3D12_DEFAULT_RESOURCE_PLACEMENT_ALIGNMENT :: UINT64 where
  "D3D12_DEFAULT_RESOURCE_PLACEMENT_ALIGNMENT = 65536"

definition DXGI_FORMAT_UNKNOWN :: DXGI_FORMAT where
  "DXGI_FORMAT_UNKNOWN = 0"

definition D3D12_TEXTURE_LAYOUT_ROW_MAJOR :: UINT where
  "D3D12_TEXTURE_LAYOUT_ROW_MAJOR = 1"

definition D3D12_RESOURCE_FLAG_ALLOW_CROSS_ADAPTER :: UINT where
  "D3D12_RESOURCE_FLAG_ALLOW_CROSS_ADAPTER = 0x10"

text \<open>
  An \<^verbatim>\<open>ID3D12Resource\<close> is a COM object: \<open>resource_id\<close> is its identity (its address),
  \<open>resource_desc\<close> is what \<^verbatim>\<open>_ID3D12Resource_GetDesc\<close> reads from it. A pointer to one
  that may be \<^verbatim>\<open>NULL\<close> is an \<open>option\<close>.
\<close>

record ID3D12Resource =
  resource_id :: nat
  resource_desc :: D3D12_RESOURCE_DESC

definition ID3D12Resource_GetDesc :: "ID3D12Resource \<Rightarrow> D3D12_RESOURCE_DESC" where
  "ID3D12Resource_GetDesc This = resource_desc This"

record D3D12_SUBRESOURCE_FOOTPRINT =
  Footprint_Format :: DXGI_FORMAT
  Footprint_Width :: UINT
  Footprint_Height :: UINT
  Footprint_Depth :: UINT
  Footprint_RowPitch :: UINT

record D3D12_PLACED_SUBRESOURCE_FOOTPRINT =
  Offset :: UINT64
  Footprint :: D3D12_SUBRESOURCE_FOOTPRINT

text \<open>
  \<^verbatim>\<open>D3D12_TEXTURE_COPY_LOCATION\<close> is a tagged union: the resource, then either a
  subresource index or a placed footprint.
\<close>

datatype D3D12_TEXTURE_COPY_LOCATION =
  D3D12_TEXTURE_COPY_TYPE_SUBRESOURCE_INDEX ID3D12Resource UINT
| D3D12_TEXTURE_COPY_TYPE_PLACED_FOOTPRINT ID3D12Resource D3D12_PLACED_SUBRESOURCE_FOOTPRINT

subsection \<open>Calls that leave the file\<close>

text \<open>A \<^verbatim>\<open>FrameBuffer *\<close> is the address of the frame buffer in shared memory.\<close>

type_synonym FrameBuffer = uintptr_t

datatype call =
  Call_ID3D12Resource_AddRef ID3D12Resource
| Call_CreatePlacedResource UINT64 D3D12_RESOURCE_DESC
| Call_CopyTextureRegion D3D12_TEXTURE_COPY_LOCATION UINT UINT UINT D3D12_TEXTURE_COPY_LOCATION
| Call_d12_backendSync
| Call_d12_commandGroupExecute
| Call_framebuffer_set_write_ptr FrameBuffer size_t

record World =
  calls :: "call list"
  write_ptr :: "FrameBuffer \<Rightarrow> size_t"

definition do_call :: "call \<Rightarrow> World \<Rightarrow> World" where
  "do_call c w = w\<lparr>calls := calls w @ [c]\<rparr>"

text \<open>
  Modelled from the spec: \<^verbatim>\<open>framebuffer_set_write_ptr\<close> (\<^verbatim>\<open>common/framebuffer.h\<close>, not
  part of this file) stores its argument as the frame buffer's write cursor.
\<close>

definition framebuffer_set_write_ptr :: "FrameBuffer \<Rightarrow> size_t \<Rightarrow> World \<Rightarrow> World" where
  "framebuffer_set_write_ptr fb n w =
     w\<lparr>calls := calls w @ [Call_framebuffer_set_write_ptr fb n],
       write_ptr := (write_ptr w)(fb := n)\<rparr>"

text \<open>
  What the calls of one \<^verbatim>\<open>waitFrame\<close> or \<^verbatim>\<open>getFrame\<close> hand back: the backend's resource
  for a frame buffer index (or \<^verbatim>\<open>NULL\<close>), the status of the backend's sync hook, the
  \<^verbatim>\<open>HRESULT\<close> and the resource of \<^verbatim>\<open>ID3D12Device3_CreatePlacedResource\<close> for a heap offset
  and a description, the data address of a frame buffer, and what the submission of the
  command group reports.
\<close>

text \<open>
  Modelled from the spec: \<^verbatim>\<open>d12_commandGroupExecute\<close> (\<^verbatim>\<open>command_group.h\<close>, not part of
  this file) submits the command group to the queue, and the submission can fail (the
  spec's \<^verbatim>\<open>CopyExecutionFailed\<close>); the field \<open>d12_commandGroupExecute\<close> is whether the
  submission of this call succeeds.
\<close>

record Externals =
  d12_backendFetch :: "nat \<Rightarrow> ID3D12Resource option"
  d12_backendSync :: CaptureResult
  CreatePlacedResource :: "UINT64 \<Rightarrow> D3D12_RESOURCE_DESC \<Rightarrow> HRESULT \<times> ID3D12Resource"
  framebuffer_get_data :: "FrameBuffer \<Rightarrow> uintptr_t"
  d12_commandGroupExecute :: bool

subsection \<open>The interface state\<close>

text \<open>
  One entry of \<^verbatim>\<open>this->frameBuffers[]\<close>, read in the source through \<^verbatim>\<open>fb->size\<close>,
  \<^verbatim>\<open>fb->frameBuffer\<close> and \<^verbatim>\<open>fb->resource\<close>. \<^verbatim>\<open>calloc\<close> zeroes every entry.
\<close>

record frameBuffers_entry =
  fb_size :: UINT
  fb_frameBuffer :: FrameBuffer
  fb_resource :: "ID3D12Resource option"

record D12Interface =
  this_ivshmemBase :: uintptr_t
  this_lastFormat :: D3D12_RESOURCE_DESC
  this_formatVer :: UINT
  this_debug :: bool
  this_frameBuffers :: "frameBuffers_entry list"

subsection \<open>d12_frameBufferToResource\<close>

text \<open>
  The caller passes an index below the number of frame buffers given to \<^verbatim>\<open>d12_create\<close>;
  the source reads \<^verbatim>\<open>this->frameBuffers[frameBufferIndex]\<close> unchecked, and every theorem
  below about a slot assumes the index in range.
\<close>

text \<open>
  Modelled from the spec: \<^verbatim>\<open>comRef_toGlobal(fb->resource, resource)\<close>, a macro of
  \<^verbatim>\<open>com_ref.h\<close> that is not part of this file, replaces the slot's cached resource by
  the new one.
\<close>

definition comRef_toGlobal :: "frameBuffers_entry \<Rightarrow> ID3D12Resource \<Rightarrow> frameBuffers_entry" where
  "comRef_toGlobal fb resource = fb\<lparr>fb_resource := Some resource\<rparr>"

text \<open>The description of the placed buffer, the local \<^verbatim>\<open>desc\<close> of the function.\<close>

definition frameBuffer_desc :: "UINT \<Rightarrow> D3D12_RESOURCE_DESC" where
  "frameBuffer_desc sz =
     \<lparr>Dimension = D3D12_RESOURCE_DIMENSION_BUFFER,
      Alignment = D3D12_DEFAULT_RESOURCE_PLACEMENT_ALIGNMENT,
      Width = ucast sz,
      Height = 1,
      DepthOrArraySize = 1,
      MipLevels = 1,
      Format = DXGI_FORMAT_UNKNOWN,
      SampleDesc_Count = 1,
      SampleDesc_Quality = 0,
      Layout = D3D12_TEXTURE_LAYOUT_ROW_MAJOR,
      Flags = D3D12_RESOURCE_FLAG_ALLOW_CROSS_ADAPTER\<rparr>"

definition d12_frameBufferToResource ::
  "Externals \<Rightarrow> nat \<Rightarrow> FrameBuffer \<Rightarrow> UINT \<Rightarrow> D12Interface \<Rightarrow> World \<Rightarrow>
     ID3D12Resource option \<times> D12Interface \<times> World" where
  "d12_frameBufferToResource ext frameBufferIndex frameBuffer sz this w =
     (let fb = this_frameBuffers this ! frameBufferIndex in
      if fb_resource fb \<noteq> None \<and> fb_frameBuffer fb = frameBuffer \<and> fb_size fb \<ge> sz
      then
        (let result = the (fb_resource fb) in
         (Some result, this, do_call (Call_ID3D12Resource_AddRef result) w))
      else
        (let fb1 = fb\<lparr>fb_size := sz, fb_frameBuffer := frameBuffer\<rparr>;
             this1 = this\<lparr>this_frameBuffers := (this_frameBuffers this)[frameBufferIndex := fb1]\<rparr>;
             desc = frameBuffer_desc sz;
             heapOffset = framebuffer_get_data ext frameBuffer - this_ivshmemBase this;
             w1 = do_call (Call_CreatePlacedResource heapOffset desc) w;
             (hr, resource) = CreatePlacedResource ext heapOffset desc
         in
         if FAILED hr then (None, this1, w1)
         else
           (let fb2 = comRef_toGlobal fb1 resource;
                this2 = this1\<lparr>this_frameBuffers := (this_frameBuffers this1)[frameBufferIndex := fb2]\<rparr>
            in (Some resource, this2, do_call (Call_ID3D12Resource_AddRef resource) w1))))"

subsection \<open>d12_waitFrame\<close>

text \<open>
  \<^verbatim>\<open>CaptureFrame\<close>, \<^verbatim>\<open>CaptureFormat\<close> and \<^verbatim>\<open>CaptureRotation\<close> are declared in
  \<^verbatim>\<open>interface/capture.h\<close>, which is not part of this file. The width of the integer
  fields of the descriptor is a parameter: the fields have the type \<open>'u\<close>, which
  \<open>d12_waitFrame\<close> takes as \<open>'a word\<close> for any width \<open>'a\<close>, and a value stored in a
  field is converted to that width, as an assignment in C converts it.
\<close>

datatype CaptureFormat =
  CAPTURE_FMT_BGRA | CAPTURE_FMT_RGBA | CAPTURE_FMT_RGBA10 | CAPTURE_FMT_RGBA16F

datatype CaptureRotation =
  CAPTURE_ROT_0 | CAPTURE_ROT_90 | CAPTURE_ROT_180 | CAPTURE_ROT_270

record 'u CaptureFrame =
  formatVer :: 'u
  screenWidth :: 'u
  screenHeight :: 'u
  dataWidth :: 'u
  dataHeight :: 'u
  frameWidth :: 'u
  frameHeight :: 'u
  truncated :: bool
  pitch :: 'u
  stride :: 'u
  format :: CaptureFormat
  hdr :: bool
  hdrPQ :: bool
  rotation :: CaptureRotation
  damageRectsCount :: 'u

text \<open>
  An integer division by zero is undefined in C and traps on the host's processor: it
  is a fault of the call, not a value.
\<close>

datatype fault = DivideByZero

text \<open>
  The comparison of the fetched description with \<^verbatim>\<open>this->lastFormat\<close> and the update of
  the format version (lines 341 to 348 of the source).
\<close>

definition formatChanged :: "D3D12_RESOURCE_DESC \<Rightarrow> D12Interface \<Rightarrow> bool" where
  "formatChanged desc this =
     (Width desc \<noteq> Width (this_lastFormat this) \<or>
      Height desc \<noteq> Height (this_lastFormat this) \<or>
      Format desc \<noteq> Format (this_lastFormat this))"

definition d12_waitFrame ::
  "Externals \<Rightarrow> nat \<Rightarrow> ('a::len) word CaptureFrame \<Rightarrow> size_t \<Rightarrow> D12Interface \<Rightarrow>
     fault + (CaptureResult \<times> 'a word CaptureFrame \<times> D12Interface)" where
  "d12_waitFrame ext frameBufferIndex frame maxFrameSize this =
     (case d12_backendFetch ext frameBufferIndex of
        None \<Rightarrow> Inr (CAPTURE_RESULT_ERROR, frame, this)
      | Some src \<Rightarrow>
          (let desc = ID3D12Resource_GetDesc src;
               this1 = (if formatChanged desc this
                        then this\<lparr>this_formatVer := this_formatVer this + 1,
                                  this_lastFormat := desc\<rparr>
                        else this)
           in
           if Width desc * 4 = 0 then Inl DivideByZero
           else
             (let maxRows = (ucast (maxFrameSize div (Width desc * 4)) :: UINT) in
              Inr (CAPTURE_RESULT_OK,
                   frame\<lparr>formatVer := ucast (this_formatVer this1),
                         screenWidth := ucast (Width desc),
                         screenHeight := ucast (Height desc),
                         dataWidth := ucast (Width desc),
                         dataHeight := ucast (min maxRows (Height desc)),
                         frameWidth := ucast (Width desc),
                         frameHeight := ucast (Height desc),
                         truncated := (maxRows < Height desc),
                         pitch := ucast (Width desc * 4),
                         stride := ucast (Width desc),
                         format := CAPTURE_FMT_BGRA,
                         hdr := False,
                         hdrPQ := False,
                         rotation := CAPTURE_ROT_0,
                         damageRectsCount := 0\<rparr>,
                   this1))))"

subsection \<open>d12_getFrame\<close>

text \<open>
  Line 430 calls \<^verbatim>\<open>d12_commandGroupExecute\<close> as a statement: whatever the submission
  reports is bound to \<open>submitted\<close> and used by nothing.
\<close>

definition d12_getFrame ::
  "Externals \<Rightarrow> nat \<Rightarrow> FrameBuffer \<Rightarrow> size_t \<Rightarrow> D12Interface \<Rightarrow> World \<Rightarrow>
     CaptureResult \<times> D12Interface \<times> World" where
  "d12_getFrame ext frameBufferIndex frameBuffer maxFrameSize this w =
     (case d12_backendFetch ext frameBufferIndex of
        None \<Rightarrow> (CAPTURE_RESULT_ERROR, this, w)
      | Some src \<Rightarrow>
          (case d12_frameBufferToResource ext frameBufferIndex frameBuffer
                  (ucast maxFrameSize) this w of
             (None, this1, w1) \<Rightarrow> (CAPTURE_RESULT_ERROR, this1, w1)
           | (Some dst, this1, w1) \<Rightarrow>
               (let desc = ID3D12Resource_GetDesc src;
                    srcLoc = D3D12_TEXTURE_COPY_TYPE_SUBRESOURCE_INDEX src 0;
                    dstLoc = D3D12_TEXTURE_COPY_TYPE_PLACED_FOOTPRINT dst
                      \<lparr>Offset = 0,
                       Footprint =
                         \<lparr>Footprint_Format = Format desc,
                          Footprint_Width = ucast (Width desc),
                          Footprint_Height = Height desc,
                          Footprint_Depth = 1,
                          Footprint_RowPitch = ucast (Width desc * 4)\<rparr>\<rparr>;
                    w2 = do_call (Call_CopyTextureRegion dstLoc 0 0 0 srcLoc) w1;
                    result = d12_backendSync ext;
                    w3 = do_call Call_d12_backendSync w2
                in
                if result \<noteq> CAPTURE_RESULT_OK then (result, this1, w3)
                else
                  (let submitted = d12_commandGroupExecute ext;
                       w4 = do_call Call_d12_commandGroupExecute w3;
                       w5 = framebuffer_set_write_ptr frameBuffer
                              (ucast (Height desc) * Width desc * 4) w4
                   in (CAPTURE_RESULT_OK, this1, w5)))))"

subsection \<open>d12_updatePointer\<close>

text \<open>
  \<^verbatim>\<open>CapturePointer\<close> is declared in \<^verbatim>\<open>interface/capture.h\<close>; this file reads and writes
  its \<^verbatim>\<open>shapeUpdate\<close> flag only, and the functions below carry the other fields along as
  the record's extension.
\<close>

record CapturePointer =
  shapeUpdate :: bool

text \<open>
  \<^verbatim>\<open>getPointerBufferFn(&dst, &dstSize)\<close> hands back its result and what the locals
  \<^verbatim>\<open>dst\<close> and \<^verbatim>\<open>dstSize\<close> hold after the call. The locals are not initialised: when the
  provider fails without writing them, they hold whatever the stack held.
\<close>

record PointerExternals =
  getPointerBufferFn :: "bool \<times> uintptr_t \<times> UINT"

datatype 'p pointer_call =
  Call_getPointerBufferFn
| Call_memcpy uintptr_t uintptr_t size_t
| Call_postPointerBufferFn 'p

definition d12_updatePointer ::
  "PointerExternals \<Rightarrow> 'm CapturePointer_scheme \<Rightarrow> uintptr_t \<Rightarrow> size_t \<Rightarrow>
     'm CapturePointer_scheme \<times> 'm CapturePointer_scheme pointer_call list" where
  "d12_updatePointer ext pointer shape shapeSize =
     (if shapeUpdate pointer then
        (let (ok, dst, dstSize) = getPointerBufferFn ext;
             pointer1 = (if \<not> ok then pointer\<lparr>shapeUpdate := False\<rparr> else pointer);
             copySize = min (ucast dstSize) shapeSize
         in (pointer1,
             [Call_getPointerBufferFn,
              Call_memcpy dst shape copySize,
              Call_postPointerBufferFn pointer1]))
      else (pointer, [Call_postPointerBufferFn pointer]))"

subsection \<open>d12_enumerateDevices\<close>

text \<open>
  Of \<^verbatim>\<open>DXGI_ADAPTER_DESC1\<close> and \<^verbatim>\<open>DXGI_OUTPUT_DESC\<close> the fields the selection reads; the
  others only reach log lines. A factory is the list of adapters that
  \<^verbatim>\<open>IDXGIFactory2_EnumAdapters1\<close> enumerates by index until \<^verbatim>\<open>DXGI_ERROR_NOT_FOUND\<close>,
  an adapter holds the result of \<^verbatim>\<open>IDXGIAdapter1_GetDesc1\<close> and the list of outputs
  that \<^verbatim>\<open>IDXGIAdapter1_EnumOutputs\<close> enumerates.
\<close>

record DXGI_ADAPTER_DESC1 =
  VendorId :: UINT
  DeviceId :: UINT

record DXGI_OUTPUT_DESC =
  AttachedToDesktop :: bool

record IDXGIOutput =
  output_id :: nat
  IDXGIOutput_GetDesc :: DXGI_OUTPUT_DESC

record IDXGIAdapter1 =
  adapter_id :: nat
  IDXGIAdapter1_GetDesc1 :: "HRESULT \<times> DXGI_ADAPTER_DESC1"
  IDXGIAdapter1_EnumOutputs :: "IDXGIOutput list"

type_synonym IDXGIFactory2 = "IDXGIAdapter1 list"

definition blacklist :: "(UINT \<times> UINT) list" where
  "blacklist = [(0x1414, 0x008c), (0x1b36, 0x000d), (0x1234, 0x1111)]"

text \<open>The loop over the blacklist that computes \<^verbatim>\<open>skip\<close>.\<close>

fun skip_adapter :: "DXGI_ADAPTER_DESC1 \<Rightarrow> (UINT \<times> UINT) list \<Rightarrow> bool" where
  "skip_adapter adapterDesc [] = False"
| "skip_adapter adapterDesc ((vid, pid) # rest) =
     (if VendorId adapterDesc = vid \<and> DeviceId adapterDesc = pid then True
      else skip_adapter adapterDesc rest)"

text \<open>The loop over the outputs of one adapter: it breaks at the first attached one.\<close>

fun enumOutputs :: "IDXGIOutput list \<Rightarrow> IDXGIOutput option" where
  "enumOutputs [] = None"
| "enumOutputs (output # rest) =
     (if AttachedToDesktop (IDXGIOutput_GetDesc output) then Some output
      else enumOutputs rest)"

text \<open>
  The two places where the function returns \<^verbatim>\<open>false\<close>: a description that cannot be
  read, and no output left when the adapters are exhausted.
\<close>

datatype enumerate_failure = GetDesc1_failed HRESULT | No_valid_output

fun enumAdapters :: "IDXGIAdapter1 list \<Rightarrow> enumerate_failure + (IDXGIAdapter1 \<times> IDXGIOutput)" where
  "enumAdapters [] = Inl No_valid_output"
| "enumAdapters (adapter # rest) =
     (case IDXGIAdapter1_GetDesc1 adapter of
        (hr, adapterDesc) \<Rightarrow>
          if FAILED hr then Inl (GetDesc1_failed hr)
          else if skip_adapter adapterDesc blacklist then enumAdapters rest
          else
            (case enumOutputs (IDXGIAdapter1_EnumOutputs adapter) of
               Some output \<Rightarrow> Inr (adapter, output)
             | None \<Rightarrow> enumAdapters rest))"

definition d12_enumerateDevices ::
  "IDXGIFactory2 \<Rightarrow> enumerate_failure + (IDXGIAdapter1 \<times> IDXGIOutput)" where
  "d12_enumerateDevices factory = enumAdapters factory"

subsection \<open>d12_init\<close>

datatype D3D12_COMMAND_LIST_TYPE =
  D3D12_COMMAND_LIST_TYPE_DIRECT
| D3D12_COMMAND_LIST_TYPE_BUNDLE
| D3D12_COMMAND_LIST_TYPE_COMPUTE
| D3D12_COMMAND_LIST_TYPE_COPY

datatype D3D12_COMMAND_QUEUE_PRIORITY =
  D3D12_COMMAND_QUEUE_PRIORITY_NORMAL
| D3D12_COMMAND_QUEUE_PRIORITY_HIGH
| D3D12_COMMAND_QUEUE_PRIORITY_GLOBAL_REALTIME

definition D3D12_COMMAND_QUEUE_FLAG_NONE :: UINT where
  "D3D12_COMMAND_QUEUE_FLAG_NONE = 0"

text \<open>
  \<^verbatim>\<open>D3D12_COMMAND_QUEUE_DESC\<close>, read in the source through \<^verbatim>\<open>queueDesc.Priority\<close>.
\<close>

record D3D12_COMMAND_QUEUE_DESC =
  queueDesc_Type :: D3D12_COMMAND_LIST_TYPE
  queueDesc_Priority :: D3D12_COMMAND_QUEUE_PRIORITY
  queueDesc_Flags :: UINT
  queueDesc_NodeMask :: UINT

text \<open>
  \<^verbatim>\<open>queueDesc\<close> is a static of \<^verbatim>\<open>d12_init\<close> (lines 231 to 238): it holds its initialiser
  when the process starts, and every call of \<^verbatim>\<open>d12_init\<close> finds it as the call before
  left it. The initialiser names no node mask, which C zeroes.
\<close>

definition queueDesc_initializer :: D3D12_COMMAND_QUEUE_DESC where
  "queueDesc_initializer =
     \<lparr>queueDesc_Type = D3D12_COMMAND_LIST_TYPE_COPY,
      queueDesc_Priority = D3D12_COMMAND_QUEUE_PRIORITY_GLOBAL_REALTIME,
      queueDesc_Flags = D3D12_COMMAND_QUEUE_FLAG_NONE,
      queueDesc_NodeMask = 0\<rparr>"

record InitExternals =
  CreateDXGIFactory2 :: "HRESULT \<times> IDXGIFactory2"
  D3D12GetDebugInterface :: HRESULT
  D3D12CreateDevice :: "IDXGIAdapter1 \<Rightarrow> HRESULT"
  CreateCommandQueue :: "D3D12_COMMAND_QUEUE_DESC \<Rightarrow> HRESULT"
  d12_commandGroupCreate :: bool
  OpenExistingHeapFromAddress :: "uintptr_t \<Rightarrow> HRESULT"
  heapDesc_Alignment :: UINT64
  d12_backendInit :: "IDXGIAdapter1 \<Rightarrow> IDXGIOutput \<Rightarrow> bool"

datatype init_call =
  Call_CreateDXGIFactory2
| Call_D3D12GetDebugInterface
| Call_D3D12CreateDevice IDXGIAdapter1
| Call_CreateCommandQueue D3D12_COMMAND_QUEUE_DESC
| Call_d12_commandGroupCreate
| Call_OpenExistingHeapFromAddress uintptr_t
| Call_d12_backendInit

text \<open>
  The label \<^verbatim>\<open>retryCreateCommandQueue\<close>: the queue is created with the static
  \<^verbatim>\<open>queueDesc\<close>; a failure at real-time priority lowers the static to high priority and
  jumps back. The function hands back the last \<^verbatim>\<open>HRESULT\<close>, the static as it is left,
  and the log.
\<close>

function retryCreateCommandQueue ::
  "InitExternals \<Rightarrow> D3D12_COMMAND_QUEUE_DESC \<Rightarrow> init_call list \<Rightarrow>
     HRESULT \<times> D3D12_COMMAND_QUEUE_DESC \<times> init_call list" where
  "retryCreateCommandQueue ext queueDesc log =
     (let hr = CreateCommandQueue ext queueDesc;
          log1 = log @ [Call_CreateCommandQueue queueDesc]
      in
      if FAILED hr then
        (if queueDesc_Priority queueDesc = D3D12_COMMAND_QUEUE_PRIORITY_GLOBAL_REALTIME
         then retryCreateCommandQueue ext
                (queueDesc\<lparr>queueDesc_Priority := D3D12_COMMAND_QUEUE_PRIORITY_HIGH\<rparr>) log1
         else (hr, queueDesc, log1))
      else (hr, queueDesc, log1))"
  by pat_completeness auto
termination
  by (relation "measure (\<lambda>(ext, queueDesc, log).
        if queueDesc_Priority queueDesc = D3D12_COMMAND_QUEUE_PRIORITY_GLOBAL_REALTIME
        then 1 else 0)") auto

text \<open>
  \<open>d12_init\<close> takes the shared memory base, the caller's \<^verbatim>\<open>*alignSize\<close>, the interface
  and the static \<^verbatim>\<open>queueDesc\<close>, and hands back its result, \<^verbatim>\<open>*alignSize\<close>, the
  interface, the static and the log. The handles it stores in the interface on success
  are read by nothing modelled here.
\<close>

type_synonym init_outcome =
  "bool \<times> UINT \<times> D12Interface \<times> D3D12_COMMAND_QUEUE_DESC \<times> init_call list"

definition d12_init ::
  "InitExternals \<Rightarrow> uintptr_t \<Rightarrow> UINT \<Rightarrow> D12Interface \<Rightarrow> D3D12_COMMAND_QUEUE_DESC \<Rightarrow>
     init_outcome" where
  "d12_init ext ivshmemBase alignSize this queueDesc =
     (let (hr0, factory) = CreateDXGIFactory2 ext;
          log0 = [Call_CreateDXGIFactory2]
      in
      if FAILED hr0 then (False, alignSize, this, queueDesc, log0)
      else
        (case d12_enumerateDevices factory of
           Inl failure \<Rightarrow> (False, alignSize, this, queueDesc, log0)
         | Inr (adapter, output) \<Rightarrow>
             (let log1 = (if this_debug this then log0 @ [Call_D3D12GetDebugInterface] else log0)
              in
              if this_debug this \<and> FAILED (D3D12GetDebugInterface ext)
              then (False, alignSize, this, queueDesc, log1)
              else
                (let log2 = log1 @ [Call_D3D12CreateDevice adapter] in
                 if FAILED (D3D12CreateDevice ext adapter)
                 then (False, alignSize, this, queueDesc, log2)
                 else
                   (case retryCreateCommandQueue ext queueDesc log2 of
                      (hr, queueDesc1, log3) \<Rightarrow>
                        if FAILED hr then (False, alignSize, this, queueDesc1, log3)
                        else
                          (let log4 = log3 @ [Call_d12_commandGroupCreate] in
                           if \<not> d12_commandGroupCreate ext
                           then (False, alignSize, this, queueDesc1, log4)
                           else
                             (let this1 = this\<lparr>this_ivshmemBase := ivshmemBase\<rparr>;
                                  log5 = log4 @ [Call_OpenExistingHeapFromAddress ivshmemBase]
                              in
                              if FAILED (OpenExistingHeapFromAddress ext ivshmemBase)
                              then (False, alignSize, this1, queueDesc1, log5)
                              else
                                (let alignSize1 = ucast (heapDesc_Alignment ext);
                                     log6 = log5 @ [Call_d12_backendInit]
                                 in
                                 if \<not> d12_backendInit ext adapter output
                                 then (False, alignSize1, this1, queueDesc1, log6)
                                 else (True, alignSize1, this1, queueDesc1, log6)))))))))"

text \<open>What a \<^verbatim>\<open>d12_init\<close> call handed back: its result, the static, its log.\<close>

definition init_result :: "init_outcome \<Rightarrow> bool" where
  "init_result r = fst r"

definition init_queueDesc :: "init_outcome \<Rightarrow> D3D12_COMMAND_QUEUE_DESC" where
  "init_queueDesc r = fst (snd (snd (snd r)))"

definition init_log :: "init_outcome \<Rightarrow> init_call list" where
  "init_log r = snd (snd (snd (snd r)))"

text \<open>
  The bring-ups of one process, in order. A bring-up is a call of \<^verbatim>\<open>d12_init\<close> with the
  externals it meets, its arguments and the interface it finds; \<open>d12_inits\<close> hands each
  call the static as the call before left it and lists, for each call, the static it
  found and what it handed back. \<open>process_inits\<close> starts from the static's initialiser.
\<close>

type_synonym bring_up = "InitExternals \<times> uintptr_t \<times> UINT \<times> D12Interface"

fun d12_inits ::
  "bring_up list \<Rightarrow> D3D12_COMMAND_QUEUE_DESC \<Rightarrow>
     (bring_up \<times> D3D12_COMMAND_QUEUE_DESC \<times> init_outcome) list" where
  "d12_inits [] queueDesc = []"
| "d12_inits ((ext, ivshmemBase, alignSize, this) # rest) queueDesc =
     ((ext, ivshmemBase, alignSize, this), queueDesc,
      d12_init ext ivshmemBase alignSize this queueDesc) #
     d12_inits rest (init_queueDesc (d12_init ext ivshmemBase alignSize this queueDesc))"

definition process_inits ::
  "bring_up list \<Rightarrow> (bring_up \<times> D3D12_COMMAND_QUEUE_DESC \<times> init_outcome) list" where
  "process_inits bring_ups = d12_inits bring_ups queueDesc_initializer"

text \<open>The priorities at which a log asked for a command queue, in order.\<close>

fun queue_attempts :: "init_call list \<Rightarrow> D3D12_COMMAND_QUEUE_PRIORITY list" where
  "queue_attempts [] = []"
| "queue_attempts (Call_CreateCommandQueue queueDesc # rest) =
     queueDesc_Priority queueDesc # queue_attempts rest"
| "queue_attempts (c # rest) = queue_attempts rest"

section \<open>Vocabulary of the properties and running examples\<close>


text \<open>
  A 32-bit texture of the backend, a cached frame buffer resource, externals whose
  \<^verbatim>\<open>CreatePlacedResource\<close> answers a given \<^verbatim>\<open>HRESULT\<close>, and an interface with two frame
  buffer slots, the first of them cached.
\<close>

definition texture_desc :: "UINT64 \<Rightarrow> UINT \<Rightarrow> D3D12_RESOURCE_DESC" where
  "texture_desc wd ht =
     \<lparr>Dimension = 3, Alignment = 0, Width = wd, Height = ht, DepthOrArraySize = 1,
      MipLevels = 1, Format = 87, SampleDesc_Count = 1, SampleDesc_Quality = 0,
      Layout = 0, Flags = 0\<rparr>"

definition example_src :: ID3D12Resource where
  "example_src = \<lparr>resource_id = 1, resource_desc = texture_desc 1920 1080\<rparr>"

definition example_cached :: ID3D12Resource where
  "example_cached = \<lparr>resource_id = 2, resource_desc = frameBuffer_desc 100\<rparr>"

definition example_ext :: "HRESULT \<Rightarrow> Externals" where
  "example_ext hr =
     \<lparr>d12_backendFetch = (\<lambda>i. if i = 0 then Some example_src else None),
      d12_backendSync = CAPTURE_RESULT_OK,
      CreatePlacedResource = (\<lambda>heapOffset desc. (hr, \<lparr>resource_id = 3, resource_desc = desc\<rparr>)),
      framebuffer_get_data = (\<lambda>fb. fb + 8),
      d12_commandGroupExecute = True\<rparr>"

definition example_this :: D12Interface where
  "example_this =
     \<lparr>this_ivshmemBase = 0x1000,
      this_lastFormat = texture_desc 1920 1080,
      this_formatVer = 1,
      this_debug = False,
      this_frameBuffers =
        [\<lparr>fb_size = 100, fb_frameBuffer = 0x2000, fb_resource = Some example_cached\<rparr>,
         \<lparr>fb_size = 0, fb_frameBuffer = 0, fb_resource = None\<rparr>]\<rparr>"

definition example_world :: World where
  "example_world = \<lparr>calls = [], write_ptr = (\<lambda>fb. 0)\<rparr>"



subsection \<open>Sequences of waitFrame calls\<close>

text \<open>
  A sequence of \<^verbatim>\<open>waitFrame\<close> calls, each with the externals it meets, its frame buffer
  index and its \<^verbatim>\<open>maxFrameSize\<close>; the caller's descriptor and the interface are handed
  from one call to the next, and a fault ends the run.
\<close>

fun d12_waitFrames ::
  "(Externals \<times> nat \<times> size_t) list \<Rightarrow> ('a::len) word CaptureFrame \<Rightarrow> D12Interface \<Rightarrow>
     fault + D12Interface" where
  "d12_waitFrames [] frame this = Inr this"
| "d12_waitFrames ((ext, frameBufferIndex, maxFrameSize) # rest) frame this =
     (case d12_waitFrame ext frameBufferIndex frame maxFrameSize this of
        Inl f \<Rightarrow> Inl f
      | Inr (result, frame1, this1) \<Rightarrow> d12_waitFrames rest frame1 this1)"

text \<open>
  The words of the claims about the format version: the format of a description is its
  width, height and pixel format; a call observes the format of the resource the
  backend hands it, if any; a transition is an observation that differs from the last
  observed format.
\<close>

type_synonym capture_format = "UINT64 \<times> UINT \<times> DXGI_FORMAT"

definition format_of :: "D3D12_RESOURCE_DESC \<Rightarrow> capture_format" where
  "format_of desc = (Width desc, Height desc, Format desc)"

definition observed :: "Externals \<times> nat \<times> size_t \<Rightarrow> capture_format option" where
  "observed c =
     (case c of (ext, frameBufferIndex, maxFrameSize) \<Rightarrow>
        map_option (\<lambda>src. format_of (ID3D12Resource_GetDesc src))
          (d12_backendFetch ext frameBufferIndex))"

fun format_transitions :: "capture_format \<Rightarrow> capture_format option list \<Rightarrow> nat" where
  "format_transitions last_seen [] = 0"
| "format_transitions last_seen (None # rest) = format_transitions last_seen rest"
| "format_transitions last_seen (Some f # rest) =
     (if f = last_seen then format_transitions last_seen rest
      else Suc (format_transitions f rest))"

text \<open>What a \<^verbatim>\<open>waitFrame\<close> call left behind: its status, its descriptor, the version.\<close>

definition status_of ::
  "fault + (CaptureResult \<times> 'u CaptureFrame \<times> D12Interface) \<Rightarrow> CaptureResult option" where
  "status_of r = (case r of Inl f \<Rightarrow> None | Inr (result, frame, this) \<Rightarrow> Some result)"

definition frame_of ::
  "fault + (CaptureResult \<times> 'u CaptureFrame \<times> D12Interface) \<Rightarrow> 'u CaptureFrame option" where
  "frame_of r = (case r of Inl f \<Rightarrow> None | Inr (result, frame, this) \<Rightarrow> Some frame)"

definition formatVer_of ::
  "fault + (CaptureResult \<times> 'u CaptureFrame \<times> D12Interface) \<Rightarrow> UINT option" where
  "formatVer_of r =
     (case r of Inl f \<Rightarrow> None | Inr (result, frame, this) \<Rightarrow> Some (this_formatVer this))"

definition example_frame :: "32 word CaptureFrame" where
  "example_frame =
     \<lparr>formatVer = 0, screenWidth = 0, screenHeight = 0, dataWidth = 0, dataHeight = 0,
      frameWidth = 0, frameHeight = 0, truncated = False, pitch = 0, stride = 0,
      format = CAPTURE_FMT_RGBA, hdr = True, hdrPQ = True, rotation = CAPTURE_ROT_90,
      damageRectsCount = 7\<rparr>"

text \<open>Externals whose backend hands out a texture of a given width and height.\<close>

definition texture_ext :: "UINT64 \<Rightarrow> UINT \<Rightarrow> Externals" where
  "texture_ext wd ht =
     \<lparr>d12_backendFetch =
        (\<lambda>i. Some \<lparr>resource_id = 1, resource_desc = texture_desc wd ht\<rparr>),
      d12_backendSync = CAPTURE_RESULT_OK,
      CreatePlacedResource = (\<lambda>heapOffset desc. (S_OK, \<lparr>resource_id = 3, resource_desc = desc\<rparr>)),
      framebuffer_get_data = (\<lambda>fb. fb + 8),
      d12_commandGroupExecute = True\<rparr>"

definition no_frame_ext :: Externals where
  "no_frame_ext = (texture_ext 1920 1080)\<lparr>d12_backendFetch := (\<lambda>i. None)\<rparr>"

definition example_calls :: "(Externals \<times> nat \<times> size_t) list" where
  "example_calls =
     [(texture_ext 1920 1080, 0, 8388608),
      (texture_ext 1280 720, 1, 8388608),
      (no_frame_ext, 0, 8388608),
      (texture_ext 1280 720, 0, 8388608),
      (texture_ext 1920 1080, 1, 8388608)]"

definition wrapped_this :: D12Interface where
  "wrapped_this = example_this\<lparr>this_formatVer := 0xFFFFFFFF\<rparr>"

text \<open>
  The interface as \<^verbatim>\<open>d12_create\<close> leaves it: \<^verbatim>\<open>calloc\<close> zeroes the format, the version
  and every frame buffer entry.
\<close>

definition zero_desc :: D3D12_RESOURCE_DESC where
  "zero_desc =
     \<lparr>Dimension = 0, Alignment = 0, Width = 0, Height = 0, DepthOrArraySize = 0,
      MipLevels = 0, Format = 0, SampleDesc_Count = 0, SampleDesc_Quality = 0,
      Layout = 0, Flags = 0\<rparr>"

definition created_this :: "nat \<Rightarrow> D12Interface" where
  "created_this frameBuffers =
     \<lparr>this_ivshmemBase = 0, this_lastFormat = zero_desc, this_formatVer = 0,
      this_debug = False,
      this_frameBuffers =
        replicate frameBuffers \<lparr>fb_size = 0, fb_frameBuffer = 0, fb_resource = None\<rparr>\<rparr>"

text \<open>Calls that see a texture of width 1 and a texture of width 2 in turn.\<close>

fun toggling :: "bool \<Rightarrow> nat \<Rightarrow> (Externals \<times> nat \<times> size_t) list" where
  "toggling b 0 = []"
| "toggling b (Suc n) = (texture_ext (if b then 1 else 2) 1, 0, 4096) # toggling (\<not> b) n"

subsection \<open>The words of the claim about selection\<close>

definition description_fails :: "IDXGIAdapter1 \<Rightarrow> bool" where
  "description_fails adapter = FAILED (fst (IDXGIAdapter1_GetDesc1 adapter))"

definition blacklisted :: "IDXGIAdapter1 \<Rightarrow> bool" where
  "blacklisted adapter =
     ((VendorId (snd (IDXGIAdapter1_GetDesc1 adapter)),
       DeviceId (snd (IDXGIAdapter1_GetDesc1 adapter))) \<in> set blacklist)"

definition first_attached :: "IDXGIAdapter1 \<Rightarrow> IDXGIOutput option" where
  "first_attached adapter =
     find (\<lambda>output. AttachedToDesktop (IDXGIOutput_GetDesc output))
       (IDXGIAdapter1_EnumOutputs adapter)"

definition selectable :: "IDXGIAdapter1 \<Rightarrow> bool" where
  "selectable adapter =
     (\<not> description_fails adapter \<and> \<not> blacklisted adapter \<and> first_attached adapter \<noteq> None)"

text \<open>
  A virtual adapter of the blacklist (QXL) with an attached output, a real adapter
  with a detached and an attached output, and an adapter whose description cannot be
  read.
\<close>

definition attached_output :: "nat \<Rightarrow> IDXGIOutput" where
  "attached_output n = \<lparr>output_id = n, IDXGIOutput_GetDesc = \<lparr>AttachedToDesktop = True\<rparr>\<rparr>"

definition detached_output :: "nat \<Rightarrow> IDXGIOutput" where
  "detached_output n = \<lparr>output_id = n, IDXGIOutput_GetDesc = \<lparr>AttachedToDesktop = False\<rparr>\<rparr>"

definition virtual_adapter :: IDXGIAdapter1 where
  "virtual_adapter =
     \<lparr>adapter_id = 0,
      IDXGIAdapter1_GetDesc1 = (S_OK, \<lparr>VendorId = 0x1b36, DeviceId = 0x000d\<rparr>),
      IDXGIAdapter1_EnumOutputs = [attached_output 0]\<rparr>"

definition real_adapter :: IDXGIAdapter1 where
  "real_adapter =
     \<lparr>adapter_id = 1,
      IDXGIAdapter1_GetDesc1 = (S_OK, \<lparr>VendorId = 0x10de, DeviceId = 0x2204\<rparr>),
      IDXGIAdapter1_EnumOutputs = [detached_output 1, attached_output 2, attached_output 3]\<rparr>"

definition unreadable_adapter :: IDXGIAdapter1 where
  "unreadable_adapter =
     \<lparr>adapter_id = 2,
      IDXGIAdapter1_GetDesc1 = (E_FAIL, \<lparr>VendorId = 0x1002, DeviceId = 0x73bf\<rparr>),
      IDXGIAdapter1_EnumOutputs = []\<rparr>"

subsection \<open>The words of the claim about the queue priority\<close>

text \<open>
  A bring-up reaches the creation of the queue when the factory, the selection, the
  debug interface (if asked for) and the device succeed. A bring-up was rejected at
  real-time priority when it asked for a queue at real-time and then at high priority.
\<close>

definition reaches_queue :: "InitExternals \<Rightarrow> D12Interface \<Rightarrow> bool" where
  "reaches_queue ext this =
     (\<not> FAILED (fst (CreateDXGIFactory2 ext)) \<and>
      (case d12_enumerateDevices (snd (CreateDXGIFactory2 ext)) of
         Inl failure \<Rightarrow> False
       | Inr (adapter, output) \<Rightarrow>
           \<not> (this_debug this \<and> FAILED (D3D12GetDebugInterface ext)) \<and>
           \<not> FAILED (D3D12CreateDevice ext adapter)))"

definition rejected_at_realtime ::
  "bring_up \<times> D3D12_COMMAND_QUEUE_DESC \<times> init_outcome \<Rightarrow> bool" where
  "rejected_at_realtime x =
     (queue_attempts (init_log (snd (snd x))) =
        [D3D12_COMMAND_QUEUE_PRIORITY_GLOBAL_REALTIME, D3D12_COMMAND_QUEUE_PRIORITY_HIGH])"

text \<open>
  Externals of a bring-up in which everything succeeds but the creation of a command
  queue, which answers a given \<^verbatim>\<open>HRESULT\<close> at real-time and at high priority; and
  externals of a bring-up that has no factory.
\<close>

definition init_ext :: "HRESULT \<Rightarrow> HRESULT \<Rightarrow> InitExternals" where
  "init_ext realtime high =
     \<lparr>CreateDXGIFactory2 = (S_OK, [virtual_adapter, real_adapter]),
      D3D12GetDebugInterface = S_OK,
      D3D12CreateDevice = (\<lambda>adapter. S_OK),
      CreateCommandQueue =
        (\<lambda>queueDesc.
           if queueDesc_Priority queueDesc = D3D12_COMMAND_QUEUE_PRIORITY_GLOBAL_REALTIME
           then realtime
           else if queueDesc_Priority queueDesc = D3D12_COMMAND_QUEUE_PRIORITY_HIGH then high
           else S_OK),
      d12_commandGroupCreate = True,
      OpenExistingHeapFromAddress = (\<lambda>base. S_OK),
      heapDesc_Alignment = 65536,
      d12_backendInit = (\<lambda>adapter output. True)\<rparr>"

definition no_factory_ext :: InitExternals where
  "no_factory_ext = (init_ext S_OK S_OK)\<lparr>CreateDXGIFactory2 := (E_FAIL, [])\<rparr>"

text \<open>
  Three bring-ups of one process: one without a factory, one rejected at real-time
  priority and served at high priority, one that every priority would serve.
\<close>

definition example_bring_ups :: "bring_up list" where
  "example_bring_ups =
     [(no_factory_ext, 0x1000, 0, example_this),
      (init_ext E_FAIL S_OK, 0x1000, 0, example_this),
      (init_ext S_OK S_OK, 0x1000, 0, example_this)]"

section \<open>Properties of the frame resource cache\<close>

lemma entry_update_all:
  "(e::frameBuffers_entry)\<lparr>fb_size := a, fb_frameBuffer := b, fb_resource := c\<rparr> =
     \<lparr>fb_size = a, fb_frameBuffer = b, fb_resource = c\<rparr>"
  by (cases e) simp

lemma frameBufferToResource_hit:
  assumes "fb_resource (this_frameBuffers this ! i) = Some r"
    and "fb_frameBuffer (this_frameBuffers this ! i) = frameBuffer"
    and "sz \<le> fb_size (this_frameBuffers this ! i)"
  shows "d12_frameBufferToResource ext i frameBuffer sz this w =
           (Some r, this, w\<lparr>calls := calls w @ [Call_ID3D12Resource_AddRef r]\<rparr>)"
  using assms by (simp add: d12_frameBufferToResource_def comRef_toGlobal_def do_call_def)

lemma frameBufferToResource_miss:
  assumes "fb_resource (this_frameBuffers this ! i) = None \<or>
           fb_frameBuffer (this_frameBuffers this ! i) \<noteq> frameBuffer \<or>
           fb_size (this_frameBuffers this ! i) < sz"
    and "heapOffset = framebuffer_get_data ext frameBuffer - this_ivshmemBase this"
    and "CreatePlacedResource ext heapOffset (frameBuffer_desc sz) = (hr, resource)"
  shows "d12_frameBufferToResource ext i frameBuffer sz this w =
           (if FAILED hr
            then (None,
                  this\<lparr>this_frameBuffers := (this_frameBuffers this)[i :=
                     (this_frameBuffers this ! i)\<lparr>fb_size := sz, fb_frameBuffer := frameBuffer\<rparr>]\<rparr>,
                  w\<lparr>calls := calls w @ [Call_CreatePlacedResource heapOffset (frameBuffer_desc sz)]\<rparr>)
            else (Some resource,
                  this\<lparr>this_frameBuffers := (this_frameBuffers this)[i :=
                     (this_frameBuffers this ! i)\<lparr>fb_size := sz, fb_frameBuffer := frameBuffer,
                        fb_resource := Some resource\<rparr>]\<rparr>,
                  w\<lparr>calls := calls w @ [Call_CreatePlacedResource heapOffset (frameBuffer_desc sz),
                                          Call_ID3D12Resource_AddRef resource]\<rparr>))"
  using assms(1,3) unfolding assms(2)
  by (auto simp: d12_frameBufferToResource_def comRef_toGlobal_def Let_def do_call_def)

text \<open>
  Claim C3. For a slot index in range: when the slot's entry holds a resource, its
  frame buffer is the requested one and its size is at least the requested size, the
  cached resource itself is returned after one \<^verbatim>\<open>AddRef\<close>, the interface is unchanged
  and \<^verbatim>\<open>CreatePlacedResource\<close> is not called. When the entry holds no resource, or the
  frame buffer differs, or the requested size exceeds the cached size, one placed
  resource of the requested size is created at the frame buffer's data offset from the
  shared memory base; once the driver has created it, it replaces the slot's entry and
  is returned.
\<close>

theorem resourceFor_reuse_or_replace:
  assumes "frameBufferIndex < length (this_frameBuffers this)"
    and "fb = this_frameBuffers this ! frameBufferIndex"
    and "heapOffset = framebuffer_get_data ext frameBuffer - this_ivshmemBase this"
    and "CreatePlacedResource ext heapOffset (frameBuffer_desc sz) = (hr, resource)"
    and "entry = \<lparr>fb_size = sz, fb_frameBuffer = frameBuffer, fb_resource = Some resource\<rparr>"
  shows "(fb_resource fb = Some r \<and> fb_frameBuffer fb = frameBuffer \<and> sz \<le> fb_size fb \<longrightarrow>
            d12_frameBufferToResource ext frameBufferIndex frameBuffer sz this w =
              (Some r, this, w\<lparr>calls := calls w @ [Call_ID3D12Resource_AddRef r]\<rparr>)) \<and>
         ((fb_resource fb = None \<or> fb_frameBuffer fb \<noteq> frameBuffer \<or> fb_size fb < sz) \<and>
          \<not> FAILED hr \<longrightarrow>
            d12_frameBufferToResource ext frameBufferIndex frameBuffer sz this w =
              (Some resource,
               this\<lparr>this_frameBuffers := (this_frameBuffers this)[frameBufferIndex := entry]\<rparr>,
               w\<lparr>calls := calls w @ [Call_CreatePlacedResource heapOffset (frameBuffer_desc sz),
                                       Call_ID3D12Resource_AddRef resource]\<rparr>) \<and>
            Width (frameBuffer_desc sz) = ucast sz \<and>
            (this_frameBuffers this)[frameBufferIndex := entry] ! frameBufferIndex = entry)"
proof (intro conjI impI)
  assume "fb_resource fb = Some r \<and> fb_frameBuffer fb = frameBuffer \<and> sz \<le> fb_size fb"
  then show "d12_frameBufferToResource ext frameBufferIndex frameBuffer sz this w =
      (Some r, this, w\<lparr>calls := calls w @ [Call_ID3D12Resource_AddRef r]\<rparr>)"
    unfolding assms(2) by (simp add: frameBufferToResource_hit)
next
  assume a: "(fb_resource fb = None \<or> fb_frameBuffer fb \<noteq> frameBuffer \<or> fb_size fb < sz) \<and>
          \<not> FAILED hr"
  then have miss: "fb_resource (this_frameBuffers this ! frameBufferIndex) = None \<or>
           fb_frameBuffer (this_frameBuffers this ! frameBufferIndex) \<noteq> frameBuffer \<or>
           fb_size (this_frameBuffers this ! frameBufferIndex) < sz"
    unfolding assms(2) by simp
  from a have ok: "\<not> FAILED hr" by simp
  show "d12_frameBufferToResource ext frameBufferIndex frameBuffer sz this w =
              (Some resource,
               this\<lparr>this_frameBuffers := (this_frameBuffers this)[frameBufferIndex := entry]\<rparr>,
               w\<lparr>calls := calls w @ [Call_CreatePlacedResource heapOffset (frameBuffer_desc sz),
                                       Call_ID3D12Resource_AddRef resource]\<rparr>)"
    unfolding frameBufferToResource_miss [OF miss assms(3) assms(4)]
    using ok by (simp add: entry_update_all assms(5))
  show "Width (frameBuffer_desc sz) = ucast sz"
    by (simp add: frameBuffer_desc_def)
  show "(this_frameBuffers this)[frameBufferIndex := entry] ! frameBufferIndex = entry"
    using assms(1) by simp
qed

theorem resourceFor_reuse_or_replace_witness:
  "d12_frameBufferToResource (example_ext S_OK) 0 0x2000 50 example_this example_world =
     (Some example_cached, example_this,
      example_world\<lparr>calls := [Call_ID3D12Resource_AddRef example_cached]\<rparr>) \<and>
   d12_frameBufferToResource (example_ext S_OK) 0 0x2000 200 example_this example_world =
     (Some \<lparr>resource_id = 3, resource_desc = frameBuffer_desc 200\<rparr>,
      example_this\<lparr>this_frameBuffers :=
        [\<lparr>fb_size = 200, fb_frameBuffer = 0x2000,
          fb_resource = Some \<lparr>resource_id = 3, resource_desc = frameBuffer_desc 200\<rparr>\<rparr>,
         \<lparr>fb_size = 0, fb_frameBuffer = 0, fb_resource = None\<rparr>]\<rparr>,
      example_world\<lparr>calls :=
        [Call_CreatePlacedResource 0x1008 (frameBuffer_desc 200),
         Call_ID3D12Resource_AddRef \<lparr>resource_id = 3, resource_desc = frameBuffer_desc 200\<rparr>]\<rparr>)"
proof -
  have len: "(0::nat) < length (this_frameBuffers example_this)"
    by (simp add: example_this_def)
  have cr: "CreatePlacedResource (example_ext S_OK)
              (framebuffer_get_data (example_ext S_OK) 0x2000 - this_ivshmemBase example_this)
              (frameBuffer_desc sz) =
            (S_OK, \<lparr>resource_id = 3, resource_desc = frameBuffer_desc sz\<rparr>)" for sz
    by (simp add: example_ext_def)
  have ok: "\<not> FAILED S_OK" by (simp add: FAILED_def S_OK_def)
  note hit = resourceFor_reuse_or_replace [OF len refl refl cr [of 50] refl,
      where r = example_cached and w = example_world, THEN conjunct1]
  note miss = resourceFor_reuse_or_replace [OF len refl refl cr [of 200] refl,
      where r = example_cached and w = example_world, THEN conjunct2]
  have e: "this_frameBuffers example_this ! 0 =
      \<lparr>fb_size = 100, fb_frameBuffer = 0x2000, fb_resource = Some example_cached\<rparr>"
    by (simp add: example_this_def)
  have off: "framebuffer_get_data (example_ext S_OK) 0x2000 - this_ivshmemBase example_this = 0x1008"
    by (simp add: example_ext_def example_this_def)
  from hit have 1: "d12_frameBufferToResource (example_ext S_OK) 0 0x2000 50 example_this example_world =
     (Some example_cached, example_this,
      example_world\<lparr>calls := [Call_ID3D12Resource_AddRef example_cached]\<rparr>)"
    by (simp add: e example_world_def)
  from miss ok have 2: "d12_frameBufferToResource (example_ext S_OK) 0 0x2000 200 example_this example_world =
     (Some \<lparr>resource_id = 3, resource_desc = frameBuffer_desc 200\<rparr>,
      example_this\<lparr>this_frameBuffers :=
        [\<lparr>fb_size = 200, fb_frameBuffer = 0x2000,
          fb_resource = Some \<lparr>resource_id = 3, resource_desc = frameBuffer_desc 200\<rparr>\<rparr>,
         \<lparr>fb_size = 0, fb_frameBuffer = 0, fb_resource = None\<rparr>]\<rparr>,
      example_world\<lparr>calls :=
        [Call_CreatePlacedResource 0x1008 (frameBuffer_desc 200),
         Call_ID3D12Resource_AddRef \<lparr>resource_id = 3, resource_desc = frameBuffer_desc 200\<rparr>]\<rparr>)"
    unfolding off by (simp add: e) (simp add: example_this_def example_world_def)
  from 1 2 show ?thesis by simp
qed

text \<open>
  Claim C4 says that a failed creation leaves the slot's entry as it was. The function
  stores the requested size and frame buffer in the entry before it asks the driver, so
  a failure leaves them there beside the old resource: slot 0 holds a 100-byte resource
  of the frame buffer at \<open>0x2000\<close>; after a failed request for 200 bytes of the frame buffer
  at \<open>0x3000\<close> the entry reads 200 bytes, \<open>0x3000\<close>, old resource, and the same request
  made again is answered from the cache with the old resource.
\<close>

theorem resource_creation_failure_overwrites_entry:
  "d12_frameBufferToResource (example_ext E_FAIL) 0 0x3000 200 example_this example_world =
     (None,
      example_this\<lparr>this_frameBuffers :=
        [\<lparr>fb_size = 200, fb_frameBuffer = 0x3000, fb_resource = Some example_cached\<rparr>,
         \<lparr>fb_size = 0, fb_frameBuffer = 0, fb_resource = None\<rparr>]\<rparr>,
      example_world\<lparr>calls := [Call_CreatePlacedResource 0x2008 (frameBuffer_desc 200)]\<rparr>) \<and>
   this_frameBuffers example_this ! 0 =
     \<lparr>fb_size = 100, fb_frameBuffer = 0x2000, fb_resource = Some example_cached\<rparr> \<and>
   d12_frameBufferToResource (example_ext E_FAIL) 0 0x3000 200
     (example_this\<lparr>this_frameBuffers :=
        [\<lparr>fb_size = 200, fb_frameBuffer = 0x3000, fb_resource = Some example_cached\<rparr>,
         \<lparr>fb_size = 0, fb_frameBuffer = 0, fb_resource = None\<rparr>]\<rparr>)
     example_world =
     (Some example_cached,
      example_this\<lparr>this_frameBuffers :=
        [\<lparr>fb_size = 200, fb_frameBuffer = 0x3000, fb_resource = Some example_cached\<rparr>,
         \<lparr>fb_size = 0, fb_frameBuffer = 0, fb_resource = None\<rparr>]\<rparr>,
      example_world\<lparr>calls := [Call_ID3D12Resource_AddRef example_cached]\<rparr>)"
  by (simp add: d12_frameBufferToResource_def comRef_toGlobal_def example_ext_def example_this_def
      example_world_def do_call_def FAILED_def E_FAIL_def)

section \<open>Properties of d12_getFrame\<close>

lemma getFrame_no_source:
  "d12_backendFetch ext i = None \<Longrightarrow>
     d12_getFrame ext i frameBuffer maxFrameSize this w = (CAPTURE_RESULT_ERROR, this, w)"
  by (simp add: d12_getFrame_def)



lemma getFrame_submitted:
  "d12_backendFetch ext i = Some src \<Longrightarrow>
   d12_frameBufferToResource ext i frameBuffer (ucast maxFrameSize) this w = (Some dst, this1, w1) \<Longrightarrow>
   d12_backendSync ext = CAPTURE_RESULT_OK \<Longrightarrow>
   desc = ID3D12Resource_GetDesc src \<Longrightarrow>
     d12_getFrame ext i frameBuffer maxFrameSize this w =
       (CAPTURE_RESULT_OK, this1,
        w1\<lparr>calls := calls w1 @
          [Call_CopyTextureRegion
             (D3D12_TEXTURE_COPY_TYPE_PLACED_FOOTPRINT dst
                \<lparr>Offset = 0,
                 Footprint = \<lparr>Footprint_Format = Format desc,
                              Footprint_Width = ucast (Width desc),
                              Footprint_Height = Height desc,
                              Footprint_Depth = 1,
                              Footprint_RowPitch = ucast (Width desc * 4)\<rparr>\<rparr>)
             0 0 0 (D3D12_TEXTURE_COPY_TYPE_SUBRESOURCE_INDEX src 0),
           Call_d12_backendSync,
           Call_d12_commandGroupExecute,
           Call_framebuffer_set_write_ptr frameBuffer (ucast (Height desc) * Width desc * 4)],
          write_ptr := (write_ptr w1)(frameBuffer := ucast (Height desc) * Width desc * 4)\<rparr>)"
  by (simp add: d12_getFrame_def Let_def do_call_def framebuffer_set_write_ptr_def)







lemma example_getFrame_create_failed:
  "d12_getFrame (example_ext E_FAIL) 0 0x3000 200 example_this example_world =
     (CAPTURE_RESULT_ERROR,
      example_this\<lparr>this_frameBuffers :=
        [\<lparr>fb_size = 200, fb_frameBuffer = 0x3000, fb_resource = Some example_cached\<rparr>,
         \<lparr>fb_size = 0, fb_frameBuffer = 0, fb_resource = None\<rparr>]\<rparr>,
      example_world\<lparr>calls := [Call_CreatePlacedResource 0x2008 (frameBuffer_desc 200)]\<rparr>)"
  by (simp add: d12_getFrame_def d12_frameBufferToResource_def comRef_toGlobal_def example_ext_def example_this_def
      example_world_def do_call_def FAILED_def E_FAIL_def Let_def)





lemma getFrame_ok_cases:
  assumes "d12_getFrame ext i frameBuffer maxFrameSize this w = (CAPTURE_RESULT_OK, this', w')"
  shows "d12_backendSync ext = CAPTURE_RESULT_OK"
    and "fst (d12_frameBufferToResource ext i frameBuffer (ucast maxFrameSize) this w) \<noteq> None"
  using assms
  by (auto simp: d12_getFrame_def Let_def split: option.splits prod.splits if_splits)

lemma unat_ucast_fits:
  fixes x :: "'a::len word"
  assumes "unat x < 2 ^ LENGTH('b::len)"
  shows "unat (ucast x :: 'b word) = unat x"
  using assms by (simp add: unsigned_ucast_eq take_bit_nat_eq_self)

lemma ucast_size_t_UINT:
  "unat (n :: size_t) < 2 ^ 32 \<Longrightarrow> (ucast (ucast n :: UINT) :: size_t) = n"
  by (simp add: word_unat_eq_iff unat_ucast_fits)

lemma copy_extent_arith:
  fixes wd :: UINT64 and ht :: UINT
  assumes "unat wd < 2 ^ 30"
  shows "unat (ucast wd :: UINT) = unat wd \<and>
         unat (ucast (wd * 4) :: UINT) = unat wd * 4 \<and>
         unat (ucast ht * wd * 4 :: size_t) = unat ht * unat wd * 4"
proof -
  have h: "unat ht < 2 ^ 32" using unsigned_less [of ht, where ?'a = nat] by simp
  have 1: "unat (ucast wd :: UINT) = unat wd"
    using assms by (simp add: unat_ucast_fits)
  have w4: "unat (wd * 4) = unat wd * 4"
    using assms by (simp add: unat_word_ariths)
  have 2: "unat (ucast (wd * 4) :: UINT) = unat wd * 4"
    using assms by (simp add: unat_ucast_fits w4)
  have uh: "unat (ucast ht :: size_t) = unat ht"
    using h by (simp add: unat_ucast_fits)
  define p where "p = unat (ucast ht :: size_t) * unat wd"
  have "p < 2 ^ 32 * 2 ^ 30"
    unfolding p_def uh using h assms by (meson mult_strict_mono' zero_le)
  then have p4: "p * 4 < 2 ^ 64" by simp
  then have pb: "p < 2 ^ LENGTH(64)" by simp
  have hw: "unat (ucast ht * wd :: size_t) = p"
    using pb unfolding p_def by (simp only: unat_mult_lem [THEN iffD1])
  have "unat (ucast ht * wd :: size_t) * unat (4 :: size_t) < 2 ^ LENGTH(64)"
    unfolding hw using p4 by simp
  then have "unat (ucast ht * wd * 4 :: size_t) = unat (ucast ht * wd :: size_t) * unat (4 :: size_t)"
    by (simp only: unat_mult_lem [THEN iffD1])
  then have "unat (ucast ht * wd * 4 :: size_t) = p * 4"
    unfolding hw by simp
  then have 3: "unat (ucast ht * wd * 4 :: size_t) = unat ht * unat wd * 4"
    by (simp only: p_def uh)
  from 1 2 3 show ?thesis by simp
qed

text \<open>
  Claim C10, amended. A successful call ends with the copy of the source (footprint
  of the source's format, width and height, depth 1, row pitch width * 4, at offset 0
  of the destination), the sync hook, the submission and the write cursor set to
  height * width * 4. None of these depends on \<^verbatim>\<open>maxFrameSize\<close>, which only reaches the
  cache. The footprint's width and row pitch are 32-bit fields: for widths below
  \<open>2 ^ 30\<close> they are the source's width and width * 4 and the cursor is the product.
  On a miss of the cache the destination is created with \<^verbatim>\<open>maxFrameSize\<close> converted
  to \<^verbatim>\<open>unsigned\<close> as its size, which is \<^verbatim>\<open>maxFrameSize\<close> below \<open>2 ^ 32\<close>.
\<close>

theorem getFrame_copies_full_source:
  assumes "d12_getFrame ext i frameBuffer maxFrameSize this w = (CAPTURE_RESULT_OK, this', w')"
    and "d12_backendFetch ext i = Some src"
    and "desc = ID3D12Resource_GetDesc src"
    and "d12_frameBufferToResource ext i frameBuffer (ucast maxFrameSize) this w = (dst, this1, w1)"
    and "fb = this_frameBuffers this ! i"
  shows "dst \<noteq> None \<and>
         calls w' = calls w1 @
           [Call_CopyTextureRegion
              (D3D12_TEXTURE_COPY_TYPE_PLACED_FOOTPRINT (the dst)
                 \<lparr>Offset = 0,
                  Footprint = \<lparr>Footprint_Format = Format desc,
                               Footprint_Width = ucast (Width desc),
                               Footprint_Height = Height desc,
                               Footprint_Depth = 1,
                               Footprint_RowPitch = ucast (Width desc * 4)\<rparr>\<rparr>)
              0 0 0 (D3D12_TEXTURE_COPY_TYPE_SUBRESOURCE_INDEX src 0),
            Call_d12_backendSync,
            Call_d12_commandGroupExecute,
            Call_framebuffer_set_write_ptr frameBuffer (ucast (Height desc) * Width desc * 4)] \<and>
         write_ptr w' frameBuffer = ucast (Height desc) * Width desc * 4 \<and>
         (unat (Width desc) < 2 ^ 30 \<longrightarrow>
            unat (ucast (Width desc) :: UINT) = unat (Width desc) \<and>
            unat (ucast (Width desc * 4) :: UINT) = unat (Width desc) * 4 \<and>
            unat (ucast (Height desc) * Width desc * 4 :: size_t) =
              unat (Height desc) * unat (Width desc) * 4) \<and>
         (fb_resource fb = None \<or> fb_frameBuffer fb \<noteq> frameBuffer \<or>
          fb_size fb < ucast maxFrameSize \<longrightarrow>
            calls w1 = calls w @
              [Call_CreatePlacedResource
                 (framebuffer_get_data ext frameBuffer - this_ivshmemBase this)
                 (frameBuffer_desc (ucast maxFrameSize)),
               Call_ID3D12Resource_AddRef (the dst)] \<and>
            (unat maxFrameSize < 2 ^ 32 \<longrightarrow>
               Width (frameBuffer_desc (ucast maxFrameSize)) = maxFrameSize))"
proof -
  have sync: "d12_backendSync ext = CAPTURE_RESULT_OK" and some: "dst \<noteq> None"
    using getFrame_ok_cases [OF assms(1)] assms(4) by simp_all
  then obtain dst' where d: "dst = Some dst'" by auto
  note eq = getFrame_submitted [OF assms(2) assms(4) [unfolded d] sync assms(3)]
  from eq assms(1) have w': "w' = w1\<lparr>calls := calls w1 @
          [Call_CopyTextureRegion
             (D3D12_TEXTURE_COPY_TYPE_PLACED_FOOTPRINT dst'
                \<lparr>Offset = 0,
                 Footprint = \<lparr>Footprint_Format = Format desc,
                              Footprint_Width = ucast (Width desc),
                              Footprint_Height = Height desc,
                              Footprint_Depth = 1,
                              Footprint_RowPitch = ucast (Width desc * 4)\<rparr>\<rparr>)
             0 0 0 (D3D12_TEXTURE_COPY_TYPE_SUBRESOURCE_INDEX src 0),
           Call_d12_backendSync,
           Call_d12_commandGroupExecute,
           Call_framebuffer_set_write_ptr frameBuffer (ucast (Height desc) * Width desc * 4)],
          write_ptr := (write_ptr w1)(frameBuffer := ucast (Height desc) * Width desc * 4)\<rparr>"
    by simp
  have arith: "unat (ucast (Width desc) :: UINT) = unat (Width desc) \<and>
            unat (ucast (Width desc * 4) :: UINT) = unat (Width desc) * 4 \<and>
            unat (ucast (Height desc) * Width desc * 4 :: size_t) =
              unat (Height desc) * unat (Width desc) * 4"
    if small: "unat (Width desc) < 2 ^ 30"
    using small by (rule copy_extent_arith)
  have miss: "calls w1 = calls w @
              [Call_CreatePlacedResource
                 (framebuffer_get_data ext frameBuffer - this_ivshmemBase this)
                 (frameBuffer_desc (ucast maxFrameSize)),
               Call_ID3D12Resource_AddRef (the dst)]"
    if m: "fb_resource fb = None \<or> fb_frameBuffer fb \<noteq> frameBuffer \<or>
          fb_size fb < ucast maxFrameSize"
  proof -
    obtain hr resource where cr: "CreatePlacedResource ext
        (framebuffer_get_data ext frameBuffer - this_ivshmemBase this)
        (frameBuffer_desc (ucast maxFrameSize)) = (hr, resource)"
      by (cases "CreatePlacedResource ext
        (framebuffer_get_data ext frameBuffer - this_ivshmemBase this)
        (frameBuffer_desc (ucast maxFrameSize))") auto
    from frameBufferToResource_miss [OF m [unfolded assms(5)] refl cr, of w] assms(4) d
    show ?thesis by (auto split: if_splits)
  qed
  have width: "Width (frameBuffer_desc (ucast maxFrameSize)) = maxFrameSize"
    if "unat maxFrameSize < 2 ^ 32"
    using that by (simp add: frameBuffer_desc_def ucast_size_t_UINT)
  from w' d some arith miss width show ?thesis by simp
qed

lemma example_resource_4096:
  "d12_frameBufferToResource (example_ext S_OK) 0 0x2000 (ucast (4096 :: size_t))
     example_this example_world =
     (Some \<lparr>resource_id = 3, resource_desc = frameBuffer_desc 4096\<rparr>,
      example_this\<lparr>this_frameBuffers :=
        [\<lparr>fb_size = 4096, fb_frameBuffer = 0x2000,
          fb_resource = Some \<lparr>resource_id = 3, resource_desc = frameBuffer_desc 4096\<rparr>\<rparr>,
         \<lparr>fb_size = 0, fb_frameBuffer = 0, fb_resource = None\<rparr>]\<rparr>,
      example_world\<lparr>calls :=
        [Call_CreatePlacedResource 0x1008 (frameBuffer_desc 4096),
         Call_ID3D12Resource_AddRef \<lparr>resource_id = 3, resource_desc = frameBuffer_desc 4096\<rparr>]\<rparr>)"
  by (simp add: d12_frameBufferToResource_def comRef_toGlobal_def example_ext_def example_this_def
      example_world_def do_call_def FAILED_def S_OK_def Let_def)

lemma example_getFrame_4096:
  "d12_getFrame (example_ext S_OK) 0 0x2000 4096 example_this example_world =
     (CAPTURE_RESULT_OK,
      example_this\<lparr>this_frameBuffers :=
        [\<lparr>fb_size = 4096, fb_frameBuffer = 0x2000,
          fb_resource = Some \<lparr>resource_id = 3, resource_desc = frameBuffer_desc 4096\<rparr>\<rparr>,
         \<lparr>fb_size = 0, fb_frameBuffer = 0, fb_resource = None\<rparr>]\<rparr>,
      \<lparr>calls =
         [Call_CreatePlacedResource 0x1008 (frameBuffer_desc 4096),
          Call_ID3D12Resource_AddRef \<lparr>resource_id = 3, resource_desc = frameBuffer_desc 4096\<rparr>,
          Call_CopyTextureRegion
            (D3D12_TEXTURE_COPY_TYPE_PLACED_FOOTPRINT
               \<lparr>resource_id = 3, resource_desc = frameBuffer_desc 4096\<rparr>
               \<lparr>Offset = 0,
                Footprint = \<lparr>Footprint_Format = 87, Footprint_Width = 1920,
                             Footprint_Height = 1080, Footprint_Depth = 1,
                             Footprint_RowPitch = 7680\<rparr>\<rparr>)
            0 0 0 (D3D12_TEXTURE_COPY_TYPE_SUBRESOURCE_INDEX example_src 0),
          Call_d12_backendSync,
          Call_d12_commandGroupExecute,
          Call_framebuffer_set_write_ptr 0x2000 8294400],
       write_ptr = (\<lambda>fb. 0)(0x2000 := 8294400)\<rparr>)"
proof -
  have src: "d12_backendFetch (example_ext S_OK) 0 = Some example_src"
    and sync: "d12_backendSync (example_ext S_OK) = CAPTURE_RESULT_OK"
    by (simp_all add: example_ext_def)
  show ?thesis
    unfolding getFrame_submitted [OF src example_resource_4096 sync refl]
    by (simp add: ID3D12Resource_GetDesc_def example_src_def texture_desc_def example_world_def)
qed

theorem getFrame_copies_full_source_witness:
  "fst (d12_getFrame (example_ext S_OK) 0 0x2000 4096 example_this example_world) =
     CAPTURE_RESULT_OK \<and>
   unat (4096 :: size_t) < 1080 * 1920 * 4 \<and>
   calls (snd (snd (d12_getFrame (example_ext S_OK) 0 0x2000 4096 example_this example_world))) =
     [Call_CreatePlacedResource 0x1008 (frameBuffer_desc 4096),
      Call_ID3D12Resource_AddRef \<lparr>resource_id = 3, resource_desc = frameBuffer_desc 4096\<rparr>,
      Call_CopyTextureRegion
        (D3D12_TEXTURE_COPY_TYPE_PLACED_FOOTPRINT
           \<lparr>resource_id = 3, resource_desc = frameBuffer_desc 4096\<rparr>
           \<lparr>Offset = 0,
            Footprint = \<lparr>Footprint_Format = 87, Footprint_Width = 1920,
                         Footprint_Height = 1080, Footprint_Depth = 1,
                         Footprint_RowPitch = 7680\<rparr>\<rparr>)
        0 0 0 (D3D12_TEXTURE_COPY_TYPE_SUBRESOURCE_INDEX example_src 0),
      Call_d12_backendSync,
      Call_d12_commandGroupExecute,
      Call_framebuffer_set_write_ptr 0x2000 8294400] \<and>
   Width (frameBuffer_desc 4096) = 4096 \<and>
   write_ptr (snd (snd (d12_getFrame (example_ext S_OK) 0 0x2000 4096 example_this example_world)))
     0x2000 = 8294400"
proof -
  have src: "d12_backendFetch (example_ext S_OK) 0 = Some example_src"
    by (simp add: example_ext_def)
  have n: "ucast (Height (ID3D12Resource_GetDesc example_src)) *
           Width (ID3D12Resource_GetDesc example_src) * 4 = (8294400 :: size_t)"
    by (simp add: ID3D12Resource_GetDesc_def example_src_def texture_desc_def)
  from getFrame_copies_full_source [OF example_getFrame_4096 src refl example_resource_4096 refl]
  have "write_ptr (snd (snd (d12_getFrame (example_ext S_OK) 0 0x2000 4096 example_this example_world)))
     0x2000 = 8294400"
    unfolding example_getFrame_4096 n by simp
  then show ?thesis
    by (simp add: example_getFrame_4096 frameBuffer_desc_def)
qed

text \<open>
  A source \<open>2 ^ 32 + 5\<close> wide and 1 high: the call succeeds with a footprint 5 wide and
  a row pitch of 20. A \<^verbatim>\<open>maxFrameSize\<close> of \<open>2 ^ 32 + 50\<close> on an empty slot: the
  destination is created with 50 bytes.
\<close>

theorem getFrame_wide_source_counterexample:
  "d12_getFrame (texture_ext 4294967301 1) 0 0x2000 50 example_this example_world =
     (CAPTURE_RESULT_OK, example_this,
      \<lparr>calls =
         [Call_ID3D12Resource_AddRef example_cached,
          Call_CopyTextureRegion
            (D3D12_TEXTURE_COPY_TYPE_PLACED_FOOTPRINT example_cached
               \<lparr>Offset = 0,
                Footprint = \<lparr>Footprint_Format = 87, Footprint_Width = 5,
                             Footprint_Height = 1, Footprint_Depth = 1,
                             Footprint_RowPitch = 20\<rparr>\<rparr>)
            0 0 0
            (D3D12_TEXTURE_COPY_TYPE_SUBRESOURCE_INDEX
               \<lparr>resource_id = 1, resource_desc = texture_desc 4294967301 1\<rparr> 0),
          Call_d12_backendSync,
          Call_d12_commandGroupExecute,
          Call_framebuffer_set_write_ptr 0x2000 17179869204],
       write_ptr = (\<lambda>fb. 0)(0x2000 := 17179869204)\<rparr>) \<and>
   Width (texture_desc 4294967301 1) = 4294967301 \<and>
   fst (d12_getFrame (texture_ext 1920 1080) (Suc 0) 0x4000 4294967346 example_this example_world) =
     CAPTURE_RESULT_OK \<and>
   take 1 (calls (snd (snd
     (d12_getFrame (texture_ext 1920 1080) (Suc 0) 0x4000 4294967346 example_this example_world)))) =
     [Call_CreatePlacedResource 0x3008 (frameBuffer_desc 50)] \<and>
   Width (frameBuffer_desc 50) = 50"
proof -
  have 1: "d12_getFrame (texture_ext 4294967301 1) 0 0x2000 50 example_this example_world =
     (CAPTURE_RESULT_OK, example_this,
      \<lparr>calls =
         [Call_ID3D12Resource_AddRef example_cached,
          Call_CopyTextureRegion
            (D3D12_TEXTURE_COPY_TYPE_PLACED_FOOTPRINT example_cached
               \<lparr>Offset = 0,
                Footprint = \<lparr>Footprint_Format = 87, Footprint_Width = 5,
                             Footprint_Height = 1, Footprint_Depth = 1,
                             Footprint_RowPitch = 20\<rparr>\<rparr>)
            0 0 0
            (D3D12_TEXTURE_COPY_TYPE_SUBRESOURCE_INDEX
               \<lparr>resource_id = 1, resource_desc = texture_desc 4294967301 1\<rparr> 0),
          Call_d12_backendSync,
          Call_d12_commandGroupExecute,
          Call_framebuffer_set_write_ptr 0x2000 17179869204],
       write_ptr = (\<lambda>fb. 0)(0x2000 := 17179869204)\<rparr>)"
    by (simp add: d12_getFrame_def d12_frameBufferToResource_def texture_ext_def
        example_this_def example_world_def do_call_def framebuffer_set_write_ptr_def
        ID3D12Resource_GetDesc_def texture_desc_def Let_def)
  have 2: "Width (texture_desc 4294967301 1) = 4294967301"
    by (simp add: texture_desc_def)
  have n: "(4294967346 :: UINT) = 50" by simp
  have 3: "d12_getFrame (texture_ext 1920 1080) (Suc 0) 0x4000 4294967346 example_this example_world =
     (CAPTURE_RESULT_OK,
      example_this\<lparr>this_frameBuffers :=
        [\<lparr>fb_size = 100, fb_frameBuffer = 0x2000, fb_resource = Some example_cached\<rparr>,
         \<lparr>fb_size = 50, fb_frameBuffer = 0x4000,
          fb_resource = Some \<lparr>resource_id = 3, resource_desc = frameBuffer_desc 50\<rparr>\<rparr>]\<rparr>,
      \<lparr>calls =
         [Call_CreatePlacedResource 0x3008 (frameBuffer_desc 50),
          Call_ID3D12Resource_AddRef \<lparr>resource_id = 3, resource_desc = frameBuffer_desc 50\<rparr>,
          Call_CopyTextureRegion
            (D3D12_TEXTURE_COPY_TYPE_PLACED_FOOTPRINT
               \<lparr>resource_id = 3, resource_desc = frameBuffer_desc 50\<rparr>
               \<lparr>Offset = 0,
                Footprint = \<lparr>Footprint_Format = 87, Footprint_Width = 1920,
                             Footprint_Height = 1080, Footprint_Depth = 1,
                             Footprint_RowPitch = 7680\<rparr>\<rparr>)
            0 0 0
            (D3D12_TEXTURE_COPY_TYPE_SUBRESOURCE_INDEX
               \<lparr>resource_id = 1, resource_desc = texture_desc 1920 1080\<rparr> 0),
          Call_d12_backendSync,
          Call_d12_commandGroupExecute,
          Call_framebuffer_set_write_ptr 0x4000 8294400],
       write_ptr = (\<lambda>fb. 0)(0x4000 := 8294400)\<rparr>)"
    by (simp add: d12_getFrame_def d12_frameBufferToResource_def comRef_toGlobal_def
        texture_ext_def example_this_def example_world_def do_call_def
        framebuffer_set_write_ptr_def ID3D12Resource_GetDesc_def texture_desc_def Let_def
        FAILED_def S_OK_def n)
  have 4: "Width (frameBuffer_desc 50) = 50"
    by (simp add: frameBuffer_desc_def)
  show ?thesis
    unfolding 1 3 using 2 4 by simp
qed

section \<open>Properties of d12_waitFrame\<close>

lemma formatChanged_iff:
  "formatChanged desc this \<longleftrightarrow> format_of desc \<noteq> format_of (this_lastFormat this)"
  by (auto simp: formatChanged_def format_of_def)

lemma waitFrame_no_source:
  "d12_backendFetch ext i = None \<Longrightarrow>
     d12_waitFrame ext i frame maxFrameSize this = Inr (CAPTURE_RESULT_ERROR, frame, this)"
  by (simp add: d12_waitFrame_def)

lemma waitFrame_formatVer_step:
  assumes "d12_waitFrame ext i frame maxFrameSize this = Inr (result, frame1, this1)"
  shows "this_formatVer this1 =
           (case observed (ext, i, maxFrameSize) of
              None \<Rightarrow> this_formatVer this
            | Some f \<Rightarrow>
                if f = format_of (this_lastFormat this) then this_formatVer this
                else this_formatVer this + 1)"
    and "format_of (this_lastFormat this1) =
           (case observed (ext, i, maxFrameSize) of
              None \<Rightarrow> format_of (this_lastFormat this) | Some f \<Rightarrow> f)"
  using assms
  by (auto simp: d12_waitFrame_def observed_def Let_def formatChanged_iff
      split: option.splits if_splits)

lemma waitFrames_formatVer:
  assumes "d12_waitFrames cs frame this = Inr this'"
  shows "this_formatVer this' =
           this_formatVer this +
           of_nat (format_transitions (format_of (this_lastFormat this)) (map observed cs))"
  using assms
proof (induction cs arbitrary: frame this)
  case Nil
  then show ?case by simp
next
  case (Cons c cs)
  obtain ext i mfs where c: "c = (ext, i, mfs)" by (cases c) auto
  from Cons.prems c obtain result frame1 this1 where
    step: "d12_waitFrame ext i frame mfs this = Inr (result, frame1, this1)"
    and rest: "d12_waitFrames cs frame1 this1 = Inr this'"
    by (auto split: sum.splits)
  note s = waitFrame_formatVer_step [OF step]
  note ih = Cons.IH [OF rest]
  show ?case
  proof (cases "observed (ext, i, mfs)")
    case None
    with ih s show ?thesis by (simp add: c)
  next
    case (Some f)
    with ih s show ?thesis by (simp add: c)
  qed
qed

text \<open>
  Claim C2, amended. Over any run of \<^verbatim>\<open>waitFrame\<close> calls that returns, the format
  version grows by the number of format transitions the calls observed, counted modulo
  \<open>2 ^ 32\<close>: by one at each call whose resource differs in width, height or pixel format
  from the last observed format, by nothing at a call that observes the same format or
  no resource. As long as the version plus the number of transitions stays below
  \<open>2 ^ 32\<close> the version does not decrease.
\<close>

theorem formatVer_counts_transitions:
  assumes "d12_waitFrames cs frame this = Inr this'"
    and "n = format_transitions (format_of (this_lastFormat this)) (map observed cs)"
  shows "this_formatVer this' = this_formatVer this + of_nat n \<and>
         (unat (this_formatVer this) + n < 2 ^ 32 \<longrightarrow>
            unat (this_formatVer this') = unat (this_formatVer this) + n \<and>
            this_formatVer this \<le> this_formatVer this')"
proof -
  have eq: "this_formatVer this' = this_formatVer this + of_nat n"
    unfolding assms(2) by (rule waitFrames_formatVer [OF assms(1)])
  have "unat (this_formatVer this') = unat (this_formatVer this) + n \<and>
        this_formatVer this \<le> this_formatVer this'"
    if b: "unat (this_formatVer this) + n < 2 ^ 32"
  proof -
    from b have n: "n < 2 ^ 32" by simp
    have un: "unat (of_nat n :: UINT) = n"
      using n by (simp add: unat_of_nat)
    have "unat (this_formatVer this) + unat (of_nat n :: UINT) < 2 ^ LENGTH(32)"
      using b by (simp add: un)
    then have "unat (this_formatVer this + of_nat n) = unat (this_formatVer this) + unat (of_nat n :: UINT)"
      by (simp only: unat_add_lem [THEN iffD1])
    then have u: "unat (this_formatVer this') = unat (this_formatVer this) + n"
      by (simp add: eq un)
    then show ?thesis by (simp add: word_le_nat_alt)
  qed
  with eq show ?thesis by blast
qed

lemma waitFrame_texture_same:
  fixes frame :: "'a::len word CaptureFrame"
  assumes "wd * 4 \<noteq> 0" and "\<not> formatChanged (texture_desc wd ht) this"
  shows "\<exists>frame1. d12_waitFrame (texture_ext wd ht) i frame maxFrameSize this =
           Inr (CAPTURE_RESULT_OK, frame1, this)"
  using assms
  by (simp add: d12_waitFrame_def texture_ext_def ID3D12Resource_GetDesc_def Let_def
      texture_desc_def)

lemma waitFrame_texture_changed:
  fixes frame :: "'a::len word CaptureFrame"
  assumes "wd * 4 \<noteq> 0" and "formatChanged (texture_desc wd ht) this"
  shows "\<exists>frame1. d12_waitFrame (texture_ext wd ht) i frame maxFrameSize this =
           Inr (CAPTURE_RESULT_OK, frame1,
                this\<lparr>this_formatVer := this_formatVer this + 1,
                     this_lastFormat := texture_desc wd ht\<rparr>)"
  using assms
  by (simp add: d12_waitFrame_def texture_ext_def ID3D12Resource_GetDesc_def Let_def
      texture_desc_def)

lemma example_run:
  "d12_waitFrames example_calls example_frame example_this =
     Inr (example_this\<lparr>this_formatVer := 3\<rparr>)"
proof -
  define t2 where "t2 = example_this\<lparr>this_formatVer := this_formatVer example_this + 1,
    this_lastFormat := texture_desc 1280 720\<rparr>"
  define t3 where "t3 = t2\<lparr>this_formatVer := this_formatVer t2 + 1,
    this_lastFormat := texture_desc 1920 1080\<rparr>"
  have c1: "\<not> formatChanged (texture_desc 1920 1080) example_this"
    by (simp add: formatChanged_def example_this_def)
  have c2: "formatChanged (texture_desc 1280 720) example_this"
    by (simp add: formatChanged_def example_this_def texture_desc_def)
  have c4: "\<not> formatChanged (texture_desc 1280 720) t2"
    by (simp add: formatChanged_def t2_def)
  have c5: "formatChanged (texture_desc 1920 1080) t2"
    by (simp add: formatChanged_def t2_def texture_desc_def)
  have nz: "(1920 :: UINT64) * 4 \<noteq> 0" "(1280 :: UINT64) * 4 \<noteq> 0" by simp_all
  from waitFrame_texture_same [OF nz(1) c1]
  obtain f1 where e1: "d12_waitFrame (texture_ext 1920 1080) 0 example_frame 8388608 example_this =
      Inr (CAPTURE_RESULT_OK, f1, example_this)" by blast
  from waitFrame_texture_changed [OF nz(2) c2]
  obtain f2 where e2: "d12_waitFrame (texture_ext 1280 720) (Suc 0) f1 8388608 example_this =
      Inr (CAPTURE_RESULT_OK, f2, t2)" unfolding t2_def by blast
  have e3: "d12_waitFrame no_frame_ext 0 f2 8388608 t2 = Inr (CAPTURE_RESULT_ERROR, f2, t2)"
    by (simp add: waitFrame_no_source no_frame_ext_def)
  from waitFrame_texture_same [OF nz(2) c4]
  obtain f4 where e4: "d12_waitFrame (texture_ext 1280 720) 0 f2 8388608 t2 =
      Inr (CAPTURE_RESULT_OK, f4, t2)" by blast
  from waitFrame_texture_changed [OF nz(1) c5]
  obtain f5 where e5: "d12_waitFrame (texture_ext 1920 1080) (Suc 0) f4 8388608 t2 =
      Inr (CAPTURE_RESULT_OK, f5, t3)" unfolding t3_def by blast
  have t3: "t3 = example_this\<lparr>this_formatVer := 3\<rparr>"
    by (simp add: t3_def t2_def example_this_def)
  show ?thesis
    by (simp add: example_calls_def e1 e2 e3 e4 e5 t3)
qed

lemma example_transitions:
  "format_transitions (format_of (this_lastFormat example_this)) (map observed example_calls) = 2"
  by (simp add: example_calls_def observed_def texture_ext_def no_frame_ext_def format_of_def
      ID3D12Resource_GetDesc_def texture_desc_def example_this_def)

theorem formatVer_counts_transitions_witness:
  "d12_waitFrames example_calls example_frame example_this =
     Inr (example_this\<lparr>this_formatVer := 3\<rparr>) \<and>
   format_transitions (format_of (this_lastFormat example_this)) (map observed example_calls) = 2 \<and>
   this_formatVer example_this = 1 \<and>
   this_formatVer (example_this\<lparr>this_formatVer := 3\<rparr>) = this_formatVer example_this + 2 \<and>
   this_formatVer example_this \<le> this_formatVer (example_this\<lparr>this_formatVer := 3\<rparr>)"
proof -
  have v: "this_formatVer example_this = 1" by (simp add: example_this_def)
  from formatVer_counts_transitions [OF example_run example_transitions [symmetric]]
  have "this_formatVer (example_this\<lparr>this_formatVer := 3\<rparr>) = this_formatVer example_this + 2 \<and>
        this_formatVer example_this \<le> this_formatVer (example_this\<lparr>this_formatVer := 3\<rparr>)"
    by (simp add: v)
  then show ?thesis by (simp add: example_run example_transitions v)
qed

text \<open>
  The version is an \<^verbatim>\<open>unsigned\<close>: at \<open>0xFFFFFFFF\<close> a change of format takes it to 0.
\<close>

theorem formatVer_wraps_counterexample:
  "formatVer_of (d12_waitFrame (texture_ext 1280 720) 0 example_frame 8388608 wrapped_this) = Some 0 \<and>
   this_formatVer wrapped_this = 0xFFFFFFFF \<and>
   format_of (texture_desc 1280 720) \<noteq> format_of (this_lastFormat wrapped_this) \<and>
   \<not> this_formatVer wrapped_this \<le> 0"
  by (simp add: d12_waitFrame_def texture_ext_def ID3D12Resource_GetDesc_def Let_def
      texture_desc_def formatVer_of_def wrapped_this_def example_this_def formatChanged_def
      format_of_def)

text \<open>
  Every value of the version is reached from the interface as \<^verbatim>\<open>d12_create\<close> leaves it.
\<close>

lemma toggling_run:
  fixes frame :: "'a::len word CaptureFrame"
  assumes "Width (this_lastFormat this) \<noteq> (if b then 1 else 2)"
  shows "\<exists>this'. d12_waitFrames (toggling b n) frame this = Inr this' \<and>
           this_formatVer this' = this_formatVer this + of_nat n"
  using assms
proof (induction n arbitrary: b frame this)
  case 0
  then show ?case by simp
next
  case (Suc n)
  define wd :: UINT64 where "wd = (if b then 1 else 2)"
  define this1 where "this1 = this\<lparr>this_formatVer := this_formatVer this + 1,
                      this_lastFormat := texture_desc wd 1\<rparr>"
  have nz: "wd * 4 \<noteq> 0" by (simp add: wd_def)
  have ch: "formatChanged (texture_desc wd 1) this"
    using Suc.prems by (simp add: formatChanged_def texture_desc_def wd_def)
  from waitFrame_texture_changed [OF nz ch, of 0 frame 4096]
  obtain frame1 where
    step: "d12_waitFrame (texture_ext wd 1) 0 frame 4096 this = Inr (CAPTURE_RESULT_OK, frame1, this1)"
    unfolding this1_def by blast
  have "Width (this_lastFormat this1) \<noteq> (if \<not> b then 1 else 2)"
    by (simp add: this1_def texture_desc_def wd_def)
  from Suc.IH [OF this, of frame1] obtain this' where
    rest: "d12_waitFrames (toggling (\<not> b) n) frame1 this1 = Inr this'"
    and v: "this_formatVer this' = this_formatVer this1 + of_nat n"
    by blast
  have "d12_waitFrames (toggling b (Suc n)) frame this = Inr this'"
    using step rest by (simp add: wd_def)
  moreover have "this_formatVer this' = this_formatVer this + of_nat (Suc n)"
    using v by (simp add: this1_def)
  ultimately show ?case by blast
qed

lemma formatVer_reaches_every_value:
  "\<exists>cs this'. d12_waitFrames cs (frame :: 32 word CaptureFrame) (created_this k) = Inr this' \<and>
      this_formatVer this' = v"
proof -
  have "Width (this_lastFormat (created_this k)) \<noteq> (if True then 1 else 2)"
    by (simp add: created_this_def zero_desc_def)
  from toggling_run [OF this, of "unat v" frame] show ?thesis
    by (auto simp: created_this_def)
qed

lemma unat_min: "unat (min a b) = min (unat a) (unat b)"
  by (simp add: min_def word_le_nat_alt)

lemma maxRows_value:
  fixes maxFrameSize wd :: UINT64
  assumes "0 < unat wd" and "unat wd * 4 < 2 ^ 32"
  shows "wd * 4 \<noteq> 0"
    and "unat (wd * 4) = unat wd * 4"
    and "unat (ucast (maxFrameSize div (wd * 4)) :: UINT) =
           (unat maxFrameSize div (unat wd * 4)) mod 2 ^ 32"
proof -
  show w4: "unat (wd * 4) = unat wd * 4"
    using assms(2) by (simp add: unat_word_ariths)
  then show "wd * 4 \<noteq> 0"
    using assms(1) by (metis mult_eq_0_iff not_less_zero unat_gt_0 zero_neq_numeral neq0_conv)
  show "unat (ucast (maxFrameSize div (wd * 4)) :: UINT) =
           (unat maxFrameSize div (unat wd * 4)) mod 2 ^ 32"
    by (simp add: unsigned_ucast_eq take_bit_eq_mod unat_div w4)
qed

text \<open>
  Claim C5, amended. For a fetched resource of width \<open>wd\<close> with \<open>0 < wd\<close> and
  \<open>wd * 4 < 2 ^ 32\<close>, height \<open>ht\<close>, and descriptor fields of at least 32 bits, the call
  succeeds with pitch \<open>wd * 4\<close> and stride \<open>wd\<close>; \<^verbatim>\<open>maxRows\<close> is an \<^verbatim>\<open>unsigned int\<close>, the
  quotient of \<^verbatim>\<open>maxFrameSize\<close> by \<open>wd * 4\<close> reduced modulo \<open>2 ^ 32\<close>, the data height is
  the smaller of \<^verbatim>\<open>maxRows\<close> and \<open>ht\<close>, and the frame is truncated when \<^verbatim>\<open>maxRows\<close> is
  below \<open>ht\<close>. When the quotient is below \<open>2 ^ 32\<close>, \<^verbatim>\<open>maxRows\<close> is the quotient. When
  \<^verbatim>\<open>maxFrameSize\<close> is \<open>wd * ht * 4\<close> the frame is not truncated and the data height is
  \<open>ht\<close>; when it is smaller the frame is truncated and the data height is the quotient,
  at most \<open>ht\<close>.
\<close>

theorem waitFrame_descriptor:
  fixes frame :: "'a::len word CaptureFrame"
  assumes "d12_backendFetch ext i = Some src"
    and "desc = ID3D12Resource_GetDesc src"
    and "wd = unat (Width desc)" and "ht = unat (Height desc)" and "m = unat maxFrameSize"
    and "0 < wd" and "wd * 4 < 2 ^ 32" and "32 \<le> LENGTH('a)"
    and "frame' = the (frame_of (d12_waitFrame ext i frame maxFrameSize this))"
    and "maxRows = (m div (wd * 4)) mod 2 ^ 32"
  shows "status_of (d12_waitFrame ext i frame maxFrameSize this) = Some CAPTURE_RESULT_OK \<and>
         unat (pitch frame') = wd * 4 \<and>
         unat (stride frame') = wd \<and>
         unat (dataHeight frame') = min maxRows ht \<and>
         truncated frame' = (maxRows < ht) \<and>
         (m div (wd * 4) < 2 ^ 32 \<longrightarrow> maxRows = m div (wd * 4)) \<and>
         (m = wd * ht * 4 \<longrightarrow> \<not> truncated frame' \<and> unat (dataHeight frame') = ht) \<and>
         (m < wd * ht * 4 \<longrightarrow>
            truncated frame' \<and> unat (dataHeight frame') = m div (wd * 4) \<and>
            unat (dataHeight frame') \<le> ht)"
proof -
  note mr = maxRows_value [OF assms(6,7) [unfolded assms(3)]]
  have le: "(2::nat) ^ 32 \<le> 2 ^ LENGTH('a)"
    using assms(8) by (rule power_increasing) simp
  have fit32: "unat (ucast x :: 'a word) = unat x" for x :: UINT
  proof -
    have "unat x < 2 ^ 32" using unsigned_less [of x, where ?'a = nat] by simp
    with le have "unat x < 2 ^ LENGTH('a)" by linarith
    then show ?thesis by (rule unat_ucast_fits)
  qed
  have fit64: "unat (ucast x :: 'a word) = unat x" if "unat x < 2 ^ 32" for x :: UINT64
  proof -
    from that le have "unat x < 2 ^ LENGTH('a)" by linarith
    then show ?thesis by (rule unat_ucast_fits)
  qed
  define rows :: UINT where "rows = ucast (maxFrameSize div (Width desc * 4))"
  have rows: "unat rows = maxRows"
    unfolding rows_def assms(10) assms(3) assms(5) by (rule mr(3))
  have R: "d12_waitFrame ext i frame maxFrameSize this =
      Inr (CAPTURE_RESULT_OK,
           frame\<lparr>formatVer := ucast (this_formatVer
                    (if formatChanged desc this
                     then this\<lparr>this_formatVer := this_formatVer this + 1, this_lastFormat := desc\<rparr>
                     else this)),
                 screenWidth := ucast (Width desc),
                 screenHeight := ucast (Height desc),
                 dataWidth := ucast (Width desc),
                 dataHeight := ucast (min rows (Height desc)),
                 frameWidth := ucast (Width desc),
                 frameHeight := ucast (Height desc),
                 truncated := (rows < Height desc),
                 pitch := ucast (Width desc * 4),
                 stride := ucast (Width desc),
                 format := CAPTURE_FMT_BGRA,
                 hdr := False,
                 hdrPQ := False,
                 rotation := CAPTURE_ROT_0,
                 damageRectsCount := 0\<rparr>,
           if formatChanged desc this
           then this\<lparr>this_formatVer := this_formatVer this + 1, this_lastFormat := desc\<rparr>
           else this)"
    using mr(1) by (simp add: d12_waitFrame_def assms(1) Let_def rows_def flip: assms(2))
  have st: "status_of (d12_waitFrame ext i frame maxFrameSize this) = Some CAPTURE_RESULT_OK"
    by (simp add: R status_of_def)
  have p: "unat (pitch frame') = wd * 4"
    using assms(7) by (simp add: assms(9) R frame_of_def fit64 mr(2) assms(3))
  have s: "unat (stride frame') = wd"
    using assms(7) by (simp add: assms(9) R frame_of_def fit64 assms(3))
  have dh: "unat (dataHeight frame') = min maxRows ht"
    by (simp add: assms(9) R frame_of_def fit32 unat_min rows assms(4))
  have tr: "truncated frame' = (maxRows < ht)"
    by (simp add: assms(9) R frame_of_def word_less_nat_alt rows assms(4))
  have htb: "ht < 2 ^ 32"
    unfolding assms(4) using unsigned_less [of "Height desc", where ?'a = nat] by simp
  have exact: "maxRows = ht" if "m = wd * ht * 4"
  proof -
    have "m = ht * (wd * 4)" using that by (simp add: mult.commute mult.left_commute)
    then have "m div (wd * 4) = ht" using assms(6) by simp
    then show ?thesis using htb by (simp add: assms(10))
  qed
  have short: "maxRows = m div (wd * 4) \<and> maxRows < ht" if "m < wd * ht * 4"
  proof -
    have "m < ht * (wd * 4)" using that by (simp add: mult.commute mult.left_commute)
    then have q: "m div (wd * 4) < ht" using assms(6)
      by (simp add: less_mult_imp_div_less)
    with htb have "m div (wd * 4) < 2 ^ 32" by linarith
    then show ?thesis using q by (simp add: assms(10))
  qed
  have q: "maxRows = m div (wd * 4)" if "m div (wd * 4) < 2 ^ 32"
    using that by (simp add: assms(10))
  from st p s dh tr q exact short show ?thesis
    by (auto simp: min_def)
qed

theorem waitFrame_descriptor_witness:
  "status_of (d12_waitFrame (texture_ext 1920 1080) 0 example_frame 8294400 example_this) =
     Some CAPTURE_RESULT_OK \<and>
   \<not> truncated (the (frame_of
       (d12_waitFrame (texture_ext 1920 1080) 0 example_frame 8294400 example_this))) \<and>
   unat (dataHeight (the (frame_of
       (d12_waitFrame (texture_ext 1920 1080) 0 example_frame 8294400 example_this)))) = 1080 \<and>
   unat (pitch (the (frame_of
       (d12_waitFrame (texture_ext 1920 1080) 0 example_frame 8294400 example_this)))) = 7680 \<and>
   unat (stride (the (frame_of
       (d12_waitFrame (texture_ext 1920 1080) 0 example_frame 8294400 example_this)))) = 1920 \<and>
   truncated (the (frame_of
       (d12_waitFrame (texture_ext 1920 1080) 0 example_frame 4096 example_this))) \<and>
   unat (dataHeight (the (frame_of
       (d12_waitFrame (texture_ext 1920 1080) 0 example_frame 4096 example_this)))) = 0"
proof -
  define src where "src = \<lparr>resource_id = 1, resource_desc = texture_desc 1920 1080\<rparr>"
  have f: "d12_backendFetch (texture_ext 1920 1080) 0 = Some src"
    by (simp add: texture_ext_def src_def)
  have wd: "(1920::nat) = unat (Width (ID3D12Resource_GetDesc src))"
    and ht: "(1080::nat) = unat (Height (ID3D12Resource_GetDesc src))"
    by (simp_all add: src_def ID3D12Resource_GetDesc_def texture_desc_def)
  have m1: "(8294400::nat) = unat (8294400 :: size_t)"
    and m2: "(4096::nat) = unat (4096 :: size_t)" by simp_all
  have pos: "(0::nat) < 1920" and small: "(1920::nat) * 4 < 2 ^ 32"
    and len: "32 \<le> LENGTH(32)" by simp_all
  note exact = waitFrame_descriptor [OF f refl wd ht m1 pos small len refl refl,
      of example_frame example_this]
  note short = waitFrame_descriptor [OF f refl wd ht m2 pos small len refl refl,
      of example_frame example_this]
  from exact short show ?thesis by simp
qed

text \<open>
  A 1 by 1 source and a \<^verbatim>\<open>maxFrameSize\<close> of \<open>2 ^ 34\<close>: the quotient \<open>2 ^ 32\<close> does not fit
  \<^verbatim>\<open>maxRows\<close>, which becomes 0, and the frame is reported truncated with no rows.
\<close>

theorem waitFrame_maxRows_counterexample:
  "map_option (\<lambda>f. (truncated f, dataHeight f))
     (frame_of (d12_waitFrame (texture_ext 1 1) 0 example_frame 17179869184 example_this)) =
     Some (True, 0) \<and>
   unat (17179869184 :: size_t) div (1 * 4) = 4294967296 \<and>
   \<not> (4294967296 :: nat) < 1 \<and>
   min (4294967296 :: nat) 1 = 1"
  by (simp add: d12_waitFrame_def texture_ext_def ID3D12Resource_GetDesc_def Let_def
      texture_desc_def frame_of_def example_frame_def)

text \<open>
  Claim C9, amended. When the backend has no resource for the index, \<^verbatim>\<open>waitFrame\<close>
  returns \<^verbatim>\<open>CAPTURE_RESULT_ERROR\<close>, the status \<^verbatim>\<open>getFrame\<close> returns for the same
  absence, and leaves the descriptor and the interface as they were.
\<close>

theorem waitFrame_without_frame_is_error:
  assumes "d12_backendFetch ext i = None"
  shows "d12_waitFrame ext i frame maxFrameSize this = Inr (CAPTURE_RESULT_ERROR, frame, this) \<and>
         fst (d12_getFrame ext i frameBuffer maxFrameSize this w) = CAPTURE_RESULT_ERROR"
  using assms by (simp add: waitFrame_no_source getFrame_no_source)

theorem waitFrame_without_frame_is_error_witness:
  "d12_waitFrame no_frame_ext 0 example_frame 8388608 example_this =
     Inr (CAPTURE_RESULT_ERROR, example_frame, example_this) \<and>
   fst (d12_getFrame no_frame_ext 0 0x2000 8388608 example_this example_world) =
     CAPTURE_RESULT_ERROR"
proof -
  have "d12_backendFetch no_frame_ext 0 = None"
    by (simp add: no_frame_ext_def)
  from waitFrame_without_frame_is_error [OF this] show ?thesis .
qed

text \<open>
  The status of a missing frame is the status of any other failure: \<^verbatim>\<open>getFrame\<close>
  returns it when the backend has a frame and the placed resource cannot be created.
\<close>

theorem frame_not_ready_status_counterexample:
  "status_of (d12_waitFrame no_frame_ext 0 example_frame 8388608 example_this) =
     Some CAPTURE_RESULT_ERROR \<and>
   fst (d12_getFrame (example_ext E_FAIL) 0 0x3000 200 example_this example_world) =
     CAPTURE_RESULT_ERROR \<and>
   d12_backendFetch (example_ext E_FAIL) 0 \<noteq> None"
proof -
  have "d12_backendFetch no_frame_ext 0 = None"
    by (simp add: no_frame_ext_def)
  then have 1: "status_of (d12_waitFrame no_frame_ext 0 example_frame 8388608 example_this) =
     Some CAPTURE_RESULT_ERROR"
    by (simp add: waitFrame_no_source status_of_def)
  have 2: "fst (d12_getFrame (example_ext E_FAIL) 0 0x3000 200 example_this example_world) =
     CAPTURE_RESULT_ERROR"
    by (simp add: example_getFrame_create_failed)
  have 3: "d12_backendFetch (example_ext E_FAIL) 0 \<noteq> None"
    by (simp add: example_ext_def)
  from 1 2 3 show ?thesis by blast
qed

section \<open>Properties of d12_updatePointer\<close>

text \<open>
  Claim C6 says that no bytes are copied when the buffer cannot be acquired. The
  function clears the flag and then falls through to \<^verbatim>\<open>memcpy\<close> with the locals the
  provider never set: with \<open>0xDEADBEEF\<close> and 64 left in them and a shape of 16 bytes it
  copies 16 bytes to \<open>0xDEADBEEF\<close> before it posts the event.
\<close>

theorem updatePointer_copies_after_failed_acquire:
  "d12_updatePointer \<lparr>getPointerBufferFn = (False, 0xDEADBEEF, 64)\<rparr>
     \<lparr>shapeUpdate = True\<rparr> 0x5000 16 =
     (\<lparr>shapeUpdate = False\<rparr>,
      [Call_getPointerBufferFn,
       Call_memcpy 0xDEADBEEF 0x5000 16,
       Call_postPointerBufferFn \<lparr>shapeUpdate = False\<rparr>])"
  by (simp add: d12_updatePointer_def Let_def)

text \<open>
  What the function does as the claim says: an acquired buffer receives the smaller of
  its capacity and the shape size, and every call posts the event exactly once, last.
\<close>

lemma updatePointer_acquired:
  assumes "shapeUpdate pointer" and "getPointerBufferFn ext = (True, dst, dstSize)"
  shows "d12_updatePointer ext pointer shape shapeSize =
           (pointer,
            [Call_getPointerBufferFn,
             Call_memcpy dst shape (min (ucast dstSize) shapeSize),
             Call_postPointerBufferFn pointer])"
  using assms by (simp add: d12_updatePointer_def)

lemma updatePointer_posts_once:
  assumes "d12_updatePointer ext pointer shape shapeSize = (pointer', cs)"
  shows "filter (\<lambda>c. \<exists>p. c = Call_postPointerBufferFn p) cs = [Call_postPointerBufferFn pointer'] \<and>
         last cs = Call_postPointerBufferFn pointer' \<and>
         (\<not> shapeUpdate pointer \<longrightarrow> pointer' = pointer \<and> cs = [Call_postPointerBufferFn pointer]) \<and>
         (shapeUpdate pointer \<and> \<not> fst (getPointerBufferFn ext) \<longrightarrow> \<not> shapeUpdate pointer')"
  using assms
  by (auto simp: d12_updatePointer_def Let_def split: if_splits prod.splits)

section \<open>Properties of d12_enumerateDevices\<close>

lemma skip_adapter_iff:
  "skip_adapter adapterDesc bl \<longleftrightarrow> (VendorId adapterDesc, DeviceId adapterDesc) \<in> set bl"
  by (induction adapterDesc bl rule: skip_adapter.induct) auto

lemma enumOutputs_find:
  "enumOutputs outputs = find (\<lambda>output. AttachedToDesktop (IDXGIOutput_GetDesc output)) outputs"
  by (induction outputs) auto

lemma enumAdapters_Cons:
  "enumAdapters (adapter # rest) =
     (if description_fails adapter
      then Inl (GetDesc1_failed (fst (IDXGIAdapter1_GetDesc1 adapter)))
      else if selectable adapter then Inr (adapter, the (first_attached adapter))
      else enumAdapters rest)"
  by (auto simp: description_fails_def selectable_def blacklisted_def first_attached_def
      skip_adapter_iff enumOutputs_find split: prod.splits option.splits)

lemma enumAdapters_find:
  "enumAdapters factory =
     (case find (\<lambda>adapter. description_fails adapter \<or> selectable adapter) factory of
        None \<Rightarrow> Inl No_valid_output
      | Some adapter \<Rightarrow>
          if description_fails adapter
          then Inl (GetDesc1_failed (fst (IDXGIAdapter1_GetDesc1 adapter)))
          else Inr (adapter, the (first_attached adapter)))"
proof (induction factory)
  case Nil
  show ?case by simp
next
  case (Cons adapter rest)
  show ?case
    unfolding enumAdapters_Cons Cons.IH by simp
qed

lemma enumAdapters_selected:
  assumes "enumAdapters factory = Inr (adapter, output)"
  shows "adapter \<in> set factory \<and> selectable adapter \<and> first_attached adapter = Some output"
  using assms
proof (induction factory)
  case Nil
  then show ?case by simp
next
  case (Cons a rest)
  then show ?case
    unfolding enumAdapters_Cons
    by (auto simp: selectable_def split: if_splits)
qed

lemma find_without_failures:
  assumes "list_all (\<lambda>adapter. \<not> description_fails adapter) factory"
  shows "find (\<lambda>adapter. description_fails adapter \<or> selectable adapter) factory =
         find selectable factory"
  using assms by (induction factory) auto

text \<open>
  Claim C7, amended. Selection is decided by the first adapter, in enumeration order,
  whose description cannot be read or that is selectable (description read, not on the
  blacklist, an output attached to the desktop): none gives the failure of no valid
  output, an unreadable description fails the selection, a selectable adapter is
  returned with its first attached output. So no blacklisted adapter is ever returned,
  and when every description can be read the first selectable adapter is returned,
  with a failure exactly when there is none.
\<close>

theorem selection_first_selectable:
  "d12_enumerateDevices factory =
     (case find (\<lambda>adapter. description_fails adapter \<or> selectable adapter) factory of
        None \<Rightarrow> Inl No_valid_output
      | Some adapter \<Rightarrow>
          if description_fails adapter
          then Inl (GetDesc1_failed (fst (IDXGIAdapter1_GetDesc1 adapter)))
          else Inr (adapter, the (first_attached adapter))) \<and>
   (\<forall>adapter output. d12_enumerateDevices factory = Inr (adapter, output) \<longrightarrow>
      adapter \<in> set factory \<and> \<not> blacklisted adapter \<and> first_attached adapter = Some output) \<and>
   (list_all (\<lambda>adapter. \<not> description_fails adapter) factory \<longrightarrow>
      d12_enumerateDevices factory =
        (case find selectable factory of
           None \<Rightarrow> Inl No_valid_output
         | Some adapter \<Rightarrow> Inr (adapter, the (first_attached adapter))))"
proof (intro conjI allI impI)
  show "d12_enumerateDevices factory =
     (case find (\<lambda>adapter. description_fails adapter \<or> selectable adapter) factory of
        None \<Rightarrow> Inl No_valid_output
      | Some adapter \<Rightarrow>
          if description_fails adapter
          then Inl (GetDesc1_failed (fst (IDXGIAdapter1_GetDesc1 adapter)))
          else Inr (adapter, the (first_attached adapter)))"
    unfolding d12_enumerateDevices_def by (rule enumAdapters_find)
next
  fix adapter out
  assume "d12_enumerateDevices factory = Inr (adapter, out)"
  then have s: "adapter \<in> set factory \<and> selectable adapter \<and> first_attached adapter = Some out"
    unfolding d12_enumerateDevices_def by (rule enumAdapters_selected)
  then show "adapter \<in> set factory" "\<not> blacklisted adapter" "first_attached adapter = Some out"
    by (simp_all add: selectable_def)
next
  assume ok: "list_all (\<lambda>adapter. \<not> description_fails adapter) factory"
  have "find selectable factory = Some a \<Longrightarrow> \<not> description_fails a" for a
    by (auto simp: find_Some_iff selectable_def)
  then show "d12_enumerateDevices factory =
        (case find selectable factory of
           None \<Rightarrow> Inl No_valid_output
         | Some adapter \<Rightarrow> Inr (adapter, the (first_attached adapter)))"
    unfolding d12_enumerateDevices_def enumAdapters_find find_without_failures [OF ok]
    by (auto split: option.splits)
qed

theorem selection_first_selectable_witness:
  "d12_enumerateDevices [virtual_adapter, real_adapter] = Inr (real_adapter, attached_output 2) \<and>
   blacklisted virtual_adapter \<and> \<not> blacklisted real_adapter \<and>
   first_attached virtual_adapter = Some (attached_output 0) \<and>
   d12_enumerateDevices [virtual_adapter] = Inl No_valid_output"
proof -
  have ok: "list_all (\<lambda>adapter. \<not> description_fails adapter) [virtual_adapter, real_adapter]"
    "list_all (\<lambda>adapter. \<not> description_fails adapter) [virtual_adapter]"
    by (simp_all add: description_fails_def virtual_adapter_def real_adapter_def FAILED_def S_OK_def)
  have bv: "blacklisted virtual_adapter"
    by (simp add: blacklisted_def virtual_adapter_def blacklist_def)
  have br: "\<not> blacklisted real_adapter"
    by (simp add: blacklisted_def real_adapter_def blacklist_def)
  have fv: "first_attached virtual_adapter = Some (attached_output 0)"
    by (simp add: first_attached_def virtual_adapter_def attached_output_def)
  have fr: "first_attached real_adapter = Some (attached_output 2)"
    by (simp add: first_attached_def real_adapter_def attached_output_def detached_output_def)
  have dv: "\<not> description_fails virtual_adapter" and dr: "\<not> description_fails real_adapter"
    using ok by simp_all
  have sv: "\<not> selectable virtual_adapter" and sr: "selectable real_adapter"
    by (simp_all add: selectable_def bv br fr dr)
  from selection_first_selectable [of "[virtual_adapter, real_adapter]"] ok(1)
  have 1: "d12_enumerateDevices [virtual_adapter, real_adapter] = Inr (real_adapter, attached_output 2)"
    by (simp add: sv sr fr)
  from selection_first_selectable [of "[virtual_adapter]"] ok(2)
  have 2: "d12_enumerateDevices [virtual_adapter] = Inl No_valid_output"
    by (simp add: sv)
  from 1 2 bv br fv show ?thesis by simp
qed

text \<open>
  An adapter without outputs whose description cannot be read, ahead of a real adapter
  with an attached output: the selection fails although the real adapter qualifies.
\<close>

theorem selection_description_failure_counterexample:
  "d12_enumerateDevices [unreadable_adapter, real_adapter] = Inl (GetDesc1_failed E_FAIL) \<and>
   IDXGIAdapter1_EnumOutputs unreadable_adapter = [] \<and>
   \<not> blacklisted real_adapter \<and>
   first_attached real_adapter = Some (attached_output 2) \<and>
   d12_enumerateDevices [real_adapter] = Inr (real_adapter, attached_output 2)"
  by (simp add: d12_enumerateDevices_def unreadable_adapter_def real_adapter_def FAILED_def
      E_FAIL_def S_OK_def blacklisted_def blacklist_def first_attached_def attached_output_def
      detached_output_def)

section \<open>Properties of d12_init\<close>

declare retryCreateCommandQueue.simps [simp del]

lemma queue_attempts_append:
  "queue_attempts (xs @ ys) = queue_attempts xs @ queue_attempts ys"
  by (induction xs rule: queue_attempts.induct) auto

lemma retry_created:
  assumes "\<not> FAILED (CreateCommandQueue ext q)"
  shows "retryCreateCommandQueue ext q log =
           (CreateCommandQueue ext q, q, log @ [Call_CreateCommandQueue q])"
  using assms by (subst retryCreateCommandQueue.simps) (simp add: Let_def)

lemma retry_not_realtime:
  assumes "queueDesc_Priority q \<noteq> D3D12_COMMAND_QUEUE_PRIORITY_GLOBAL_REALTIME"
  shows "retryCreateCommandQueue ext q log =
           (CreateCommandQueue ext q, q, log @ [Call_CreateCommandQueue q])"
  using assms by (subst retryCreateCommandQueue.simps) (simp add: Let_def)

lemma retry_realtime_rejected:
  assumes "queueDesc_Priority q = D3D12_COMMAND_QUEUE_PRIORITY_GLOBAL_REALTIME"
    and "FAILED (CreateCommandQueue ext q)"
    and "q' = q\<lparr>queueDesc_Priority := D3D12_COMMAND_QUEUE_PRIORITY_HIGH\<rparr>"
  shows "retryCreateCommandQueue ext q log =
           (CreateCommandQueue ext q', q',
            log @ [Call_CreateCommandQueue q, Call_CreateCommandQueue q'])"
  using assms
  by (subst retryCreateCommandQueue.simps) (simp add: Let_def retry_not_realtime)

lemma init_stops_before_queue:
  assumes "\<not> reaches_queue ext this"
  shows "queue_attempts (init_log (d12_init ext ivshmemBase alignSize this q)) = [] \<and>
         init_queueDesc (d12_init ext ivshmemBase alignSize this q) = q \<and>
         \<not> init_result (d12_init ext ivshmemBase alignSize this q)"
  using assms
  by (cases "CreateDXGIFactory2 ext")
    (auto simp: reaches_queue_def d12_init_def Let_def init_queueDesc_def init_result_def
      init_log_def split: sum.splits)

lemma retry_cases:
  "retryCreateCommandQueue ext q log =
     (if \<not> FAILED (CreateCommandQueue ext q) \<or>
         queueDesc_Priority q \<noteq> D3D12_COMMAND_QUEUE_PRIORITY_GLOBAL_REALTIME
      then (CreateCommandQueue ext q, q, log @ [Call_CreateCommandQueue q])
      else (CreateCommandQueue ext (q\<lparr>queueDesc_Priority := D3D12_COMMAND_QUEUE_PRIORITY_HIGH\<rparr>),
            q\<lparr>queueDesc_Priority := D3D12_COMMAND_QUEUE_PRIORITY_HIGH\<rparr>,
            log @ [Call_CreateCommandQueue q,
                   Call_CreateCommandQueue
                     (q\<lparr>queueDesc_Priority := D3D12_COMMAND_QUEUE_PRIORITY_HIGH\<rparr>)]))"
  using retry_created [of ext q log] retry_not_realtime [of q ext log]
    retry_realtime_rejected [of q ext _ log]
  by auto

lemma init_at_queue:
  assumes "reaches_queue ext this"
    and "retryCreateCommandQueue ext q [] = (hr, q1, cs)"
    and "r = d12_init ext ivshmemBase alignSize this q"
  shows "init_queueDesc r = q1 \<and>
         queue_attempts (init_log r) = queue_attempts cs \<and>
         (FAILED hr \<longrightarrow> \<not> init_result r)"
  using assms(1,2) unfolding assms(3)
  by (cases "CreateDXGIFactory2 ext")
    (auto simp: reaches_queue_def d12_init_def Let_def init_queueDesc_def init_result_def
      init_log_def retry_cases queue_attempts_append split: sum.splits if_splits)

lemma init_attempts:
  assumes "reaches_queue ext this"
    and "r = d12_init ext ivshmemBase alignSize this q"
    and "rejected \<longleftrightarrow> FAILED (CreateCommandQueue ext q) \<and>
           queueDesc_Priority q = D3D12_COMMAND_QUEUE_PRIORITY_GLOBAL_REALTIME"
  shows "queue_attempts (init_log r) =
           (if rejected
            then [D3D12_COMMAND_QUEUE_PRIORITY_GLOBAL_REALTIME, D3D12_COMMAND_QUEUE_PRIORITY_HIGH]
            else [queueDesc_Priority q]) \<and>
         init_queueDesc r =
           (if rejected then q\<lparr>queueDesc_Priority := D3D12_COMMAND_QUEUE_PRIORITY_HIGH\<rparr> else q) \<and>
         (FAILED (CreateCommandQueue ext (init_queueDesc r)) \<longrightarrow> \<not> init_result r)"
proof (cases rejected)
  case True
  then have rt: "retryCreateCommandQueue ext q [] =
      (CreateCommandQueue ext (q\<lparr>queueDesc_Priority := D3D12_COMMAND_QUEUE_PRIORITY_HIGH\<rparr>),
       q\<lparr>queueDesc_Priority := D3D12_COMMAND_QUEUE_PRIORITY_HIGH\<rparr>,
       [Call_CreateCommandQueue q,
        Call_CreateCommandQueue (q\<lparr>queueDesc_Priority := D3D12_COMMAND_QUEUE_PRIORITY_HIGH\<rparr>)])"
    using assms(3) by (simp add: retry_cases)
  from init_at_queue [OF assms(1) rt assms(2)] True assms(3) show ?thesis
    by simp
next
  case False
  then have rt: "retryCreateCommandQueue ext q [] =
      (CreateCommandQueue ext q, q, [Call_CreateCommandQueue q])"
    using assms(3) by (simp add: retry_cases)
  from init_at_queue [OF assms(1) rt assms(2)] False show ?thesis
    by simp
qed

lemma init_step:
  assumes "r = d12_init ext ivshmemBase alignSize this q"
    and "realtime = D3D12_COMMAND_QUEUE_PRIORITY_GLOBAL_REALTIME"
    and "high = D3D12_COMMAND_QUEUE_PRIORITY_HIGH"
    and "downgraded = q\<lparr>queueDesc_Priority := high\<rparr>"
  shows "(\<not> reaches_queue ext this \<longrightarrow>
            queue_attempts (init_log r) = [] \<and> init_queueDesc r = q \<and> \<not> init_result r) \<and>
         (reaches_queue ext this \<and> queueDesc_Priority q = realtime \<and>
          \<not> FAILED (CreateCommandQueue ext q) \<longrightarrow>
            queue_attempts (init_log r) = [realtime] \<and> init_queueDesc r = q) \<and>
         (reaches_queue ext this \<and> queueDesc_Priority q = realtime \<and>
          FAILED (CreateCommandQueue ext q) \<longrightarrow>
            queue_attempts (init_log r) = [realtime, high] \<and> init_queueDesc r = downgraded \<and>
            (FAILED (CreateCommandQueue ext downgraded) \<longrightarrow> \<not> init_result r)) \<and>
         (reaches_queue ext this \<and> queueDesc_Priority q = high \<longrightarrow>
            queue_attempts (init_log r) = [high] \<and> init_queueDesc r = q \<and>
            (FAILED (CreateCommandQueue ext q) \<longrightarrow> \<not> init_result r))"
proof -
  have a: "queue_attempts (init_log r) = [] \<and> init_queueDesc r = q \<and> \<not> init_result r"
    if "\<not> reaches_queue ext this"
    unfolding assms(1) using that by (rule init_stops_before_queue)
  note b = init_attempts [OF _ assms(1) refl]
  show ?thesis
    using a b unfolding assms(2,3,4) by auto
qed

lemma rejected_iff:
  assumes "r = d12_init ext ivshmemBase alignSize this q"
  shows "rejected_at_realtime ((ext, ivshmemBase, alignSize, this), q, r) \<longleftrightarrow>
           reaches_queue ext this \<and>
           queueDesc_Priority q = D3D12_COMMAND_QUEUE_PRIORITY_GLOBAL_REALTIME \<and>
           FAILED (CreateCommandQueue ext q)"
proof (cases "reaches_queue ext this")
  case True
  from init_attempts [OF True assms refl] show ?thesis
    by (auto simp: rejected_at_realtime_def True)
next
  case False
  from init_stops_before_queue [OF False, of ivshmemBase alignSize q] show ?thesis
    by (simp add: rejected_at_realtime_def False assms)
qed

lemma static_after:
  assumes "r = d12_init ext ivshmemBase alignSize this q"
  shows "init_queueDesc r =
           (if rejected_at_realtime ((ext, ivshmemBase, alignSize, this), q, r)
            then q\<lparr>queueDesc_Priority := D3D12_COMMAND_QUEUE_PRIORITY_HIGH\<rparr> else q)"
proof (cases "reaches_queue ext this")
  case True
  from init_attempts [OF True assms refl] show ?thesis
    unfolding rejected_iff [OF assms] by (auto simp: True)
next
  case False
  from init_stops_before_queue [OF False, of ivshmemBase alignSize q] show ?thesis
    unfolding rejected_iff [OF assms] by (simp add: False assms)
qed

text \<open>
  The static a bring-up of a sequence finds: the static the sequence started with,
  lowered to high priority once an earlier bring-up was rejected at real-time priority.
\<close>

lemma inits_static:
  assumes "d12_inits cs q0 = before @ ((ext, ivshmemBase, alignSize, this), q, r) # rest"
    and "high = D3D12_COMMAND_QUEUE_PRIORITY_HIGH"
  shows "r = d12_init ext ivshmemBase alignSize this q \<and>
         (queueDesc_Priority q0 = D3D12_COMMAND_QUEUE_PRIORITY_GLOBAL_REALTIME \<longrightarrow>
            q = (if list_ex rejected_at_realtime before
                 then q0\<lparr>queueDesc_Priority := high\<rparr> else q0)) \<and>
         (queueDesc_Priority q0 = high \<longrightarrow> q = q0 \<and> \<not> list_ex rejected_at_realtime before)"
  using assms(1)
proof (induction before arbitrary: cs q0)
  case Nil
  then show ?case
    by (cases cs) (auto simp: assms(2))
next
  case (Cons x before)
  from Cons.prems obtain ext0 b0 a0 this0 cs' where cs: "cs = (ext0, b0, a0, this0) # cs'"
    by (cases cs) auto
  define r0 where "r0 = d12_init ext0 b0 a0 this0 q0"
  from Cons.prems have x: "x = ((ext0, b0, a0, this0), q0, r0)"
    and tl: "d12_inits cs' (init_queueDesc r0) =
               before @ ((ext, ivshmemBase, alignSize, this), q, r) # rest"
    by (simp_all add: cs r0_def)
  note ih = Cons.IH [OF tl]
  note sa = static_after [OF r0_def]
  note ri = rejected_iff [OF r0_def]
  show ?case
  proof (cases "rejected_at_realtime x")
    case True
    with ri have p0: "queueDesc_Priority q0 = D3D12_COMMAND_QUEUE_PRIORITY_GLOBAL_REALTIME"
      by (simp add: x)
    from True sa have q1: "init_queueDesc r0 = q0\<lparr>queueDesc_Priority := high\<rparr>"
      by (simp add: x assms(2))
    from ih show ?thesis
      unfolding q1 using True p0 by (simp add: assms(2))
  next
    case False
    with sa have q1: "init_queueDesc r0 = q0" by (simp add: x)
    from ih show ?thesis
      unfolding q1 using False by simp
  qed
qed

text \<open>
  Claim C8, amended. The static queue description starts at real-time priority, and
  the bring-ups of a process find it there until one of them is rejected at real-time
  priority, from when on they find it at high priority. A bring-up that stops before
  the queue asks for no queue and leaves the static as it is. A bring-up that reaches
  the queue with the static at real-time priority asks there first; only a failure
  there is followed by one request at high priority, which the static keeps; a failure
  of that one fails the bring-up. With the static at high priority the only request is
  at high priority, and its failure fails the bring-up.
\<close>

theorem queue_priority_fallback:
  assumes "process_inits bring_ups =
             before @ ((ext, ivshmemBase, alignSize, this), queueDesc, r) # rest"
    and "realtime = D3D12_COMMAND_QUEUE_PRIORITY_GLOBAL_REALTIME"
    and "high = D3D12_COMMAND_QUEUE_PRIORITY_HIGH"
    and "downgraded = queueDesc\<lparr>queueDesc_Priority := high\<rparr>"
  shows "r = d12_init ext ivshmemBase alignSize this queueDesc \<and>
         queueDesc_Priority queueDesc_initializer = realtime \<and>
         queueDesc =
           (if list_ex rejected_at_realtime before
            then queueDesc_initializer\<lparr>queueDesc_Priority := high\<rparr>
            else queueDesc_initializer) \<and>
         (\<not> reaches_queue ext this \<longrightarrow>
            queue_attempts (init_log r) = [] \<and> init_queueDesc r = queueDesc \<and>
            \<not> init_result r) \<and>
         (reaches_queue ext this \<and> queueDesc_Priority queueDesc = realtime \<and>
          \<not> FAILED (CreateCommandQueue ext queueDesc) \<longrightarrow>
            queue_attempts (init_log r) = [realtime] \<and> init_queueDesc r = queueDesc) \<and>
         (reaches_queue ext this \<and> queueDesc_Priority queueDesc = realtime \<and>
          FAILED (CreateCommandQueue ext queueDesc) \<longrightarrow>
            queue_attempts (init_log r) = [realtime, high] \<and>
            init_queueDesc r = downgraded \<and>
            (FAILED (CreateCommandQueue ext downgraded) \<longrightarrow> \<not> init_result r)) \<and>
         (reaches_queue ext this \<and> queueDesc_Priority queueDesc = high \<longrightarrow>
            queue_attempts (init_log r) = [high] \<and> init_queueDesc r = queueDesc \<and>
            (FAILED (CreateCommandQueue ext queueDesc) \<longrightarrow> \<not> init_result r))"
proof -
  have p0: "queueDesc_Priority queueDesc_initializer = D3D12_COMMAND_QUEUE_PRIORITY_GLOBAL_REALTIME"
    by (simp add: queueDesc_initializer_def)
  note s = inits_static [OF assms(1) [unfolded process_inits_def] assms(3)]
  from s have r: "r = d12_init ext ivshmemBase alignSize this queueDesc" by simp
  from s p0 have q: "queueDesc =
           (if list_ex rejected_at_realtime before
            then queueDesc_initializer\<lparr>queueDesc_Priority := high\<rparr>
            else queueDesc_initializer)" by blast
  note st = init_step [OF r assms(2) assms(3) assms(4)]
  from r q p0 st show ?thesis
    unfolding assms(2) by blast
qed

lemma example_selection:
  "d12_enumerateDevices [virtual_adapter, real_adapter] = Inr (real_adapter, attached_output 2)"
  by (simp add: d12_enumerateDevices_def virtual_adapter_def real_adapter_def FAILED_def
      S_OK_def blacklist_def attached_output_def detached_output_def)

lemma FAILED_examples: "\<not> FAILED S_OK" "FAILED E_FAIL"
  by (simp_all add: FAILED_def S_OK_def E_FAIL_def)

lemma example_reaches: "reaches_queue (init_ext rt hi) example_this"
  by (simp add: reaches_queue_def init_ext_def example_selection FAILED_examples example_this_def)

lemma example_no_factory: "\<not> reaches_queue no_factory_ext this"
  by (simp add: reaches_queue_def no_factory_ext_def init_ext_def FAILED_examples)

lemma example_queue:
  "queueDesc_Priority q = D3D12_COMMAND_QUEUE_PRIORITY_GLOBAL_REALTIME \<Longrightarrow>
     CreateCommandQueue (init_ext rt hi) q = rt"
  "queueDesc_Priority q = D3D12_COMMAND_QUEUE_PRIORITY_HIGH \<Longrightarrow>
     CreateCommandQueue (init_ext rt hi) q = hi"
  by (simp_all add: init_ext_def)

lemma example_init:
  "d12_init (init_ext rt hi) base al example_this q =
     (case retryCreateCommandQueue (init_ext rt hi) q
             [Call_CreateDXGIFactory2, Call_D3D12CreateDevice real_adapter] of
        (hr, q1, log3) \<Rightarrow>
          if FAILED hr then (False, al, example_this, q1, log3)
          else (True, 65536, example_this\<lparr>this_ivshmemBase := base\<rparr>, q1,
                log3 @ [Call_d12_commandGroupCreate, Call_OpenExistingHeapFromAddress base,
                        Call_d12_backendInit]))"
proof -
  have d: "\<not> this_debug example_this" by (simp add: example_this_def)
  have e: "CreateDXGIFactory2 (init_ext rt hi) = (S_OK, [virtual_adapter, real_adapter])"
    "D3D12CreateDevice (init_ext rt hi) real_adapter = S_OK"
    "d12_commandGroupCreate (init_ext rt hi)"
    "OpenExistingHeapFromAddress (init_ext rt hi) base = S_OK"
    "heapDesc_Alignment (init_ext rt hi) = 65536"
    "d12_backendInit (init_ext rt hi) real_adapter (attached_output 2)"
    by (simp_all add: init_ext_def)
  show ?thesis
    unfolding d12_init_def e Let_def
    by (simp add: example_selection FAILED_examples d e split: prod.splits)
qed

lemma example_no_factory_init:
  "d12_init no_factory_ext base al this q = (False, al, this, q, [Call_CreateDXGIFactory2])"
  by (simp add: d12_init_def no_factory_ext_def init_ext_def FAILED_examples)

lemma initializer_priority:
  "queueDesc_Priority queueDesc_initializer = D3D12_COMMAND_QUEUE_PRIORITY_GLOBAL_REALTIME"
  "queueDesc_Priority (queueDesc_initializer\<lparr>queueDesc_Priority := p\<rparr>) = p"
  by (simp_all add: queueDesc_initializer_def)

lemma example_bring_ups_run:
  "process_inits example_bring_ups =
     [((no_factory_ext, 0x1000, 0, example_this), queueDesc_initializer,
       (False, 0, example_this, queueDesc_initializer, [Call_CreateDXGIFactory2])),
      ((init_ext E_FAIL S_OK, 0x1000, 0, example_this), queueDesc_initializer,
       (True, 65536, example_this\<lparr>this_ivshmemBase := 0x1000\<rparr>,
        queueDesc_initializer\<lparr>queueDesc_Priority := D3D12_COMMAND_QUEUE_PRIORITY_HIGH\<rparr>,
        [Call_CreateDXGIFactory2, Call_D3D12CreateDevice real_adapter,
         Call_CreateCommandQueue queueDesc_initializer,
         Call_CreateCommandQueue
           (queueDesc_initializer\<lparr>queueDesc_Priority := D3D12_COMMAND_QUEUE_PRIORITY_HIGH\<rparr>),
         Call_d12_commandGroupCreate, Call_OpenExistingHeapFromAddress 0x1000,
         Call_d12_backendInit])),
      ((init_ext S_OK S_OK, 0x1000, 0, example_this),
       queueDesc_initializer\<lparr>queueDesc_Priority := D3D12_COMMAND_QUEUE_PRIORITY_HIGH\<rparr>,
       (True, 65536, example_this\<lparr>this_ivshmemBase := 0x1000\<rparr>,
        queueDesc_initializer\<lparr>queueDesc_Priority := D3D12_COMMAND_QUEUE_PRIORITY_HIGH\<rparr>,
        [Call_CreateDXGIFactory2, Call_D3D12CreateDevice real_adapter,
         Call_CreateCommandQueue
           (queueDesc_initializer\<lparr>queueDesc_Priority := D3D12_COMMAND_QUEUE_PRIORITY_HIGH\<rparr>),
         Call_d12_commandGroupCreate, Call_OpenExistingHeapFromAddress 0x1000,
         Call_d12_backendInit]))]"
  by (simp add: process_inits_def example_bring_ups_def example_no_factory_init example_init
      retry_cases example_queue initializer_priority FAILED_examples init_queueDesc_def)

theorem queue_priority_fallback_witness:
  "map (\<lambda>x. (queueDesc_Priority (fst (snd x)), queue_attempts (init_log (snd (snd x))),
              queueDesc_Priority (init_queueDesc (snd (snd x))), init_result (snd (snd x))))
     (process_inits example_bring_ups) =
     [(D3D12_COMMAND_QUEUE_PRIORITY_GLOBAL_REALTIME, [],
       D3D12_COMMAND_QUEUE_PRIORITY_GLOBAL_REALTIME, False),
      (D3D12_COMMAND_QUEUE_PRIORITY_GLOBAL_REALTIME,
       [D3D12_COMMAND_QUEUE_PRIORITY_GLOBAL_REALTIME, D3D12_COMMAND_QUEUE_PRIORITY_HIGH],
       D3D12_COMMAND_QUEUE_PRIORITY_HIGH, True),
      (D3D12_COMMAND_QUEUE_PRIORITY_HIGH, [D3D12_COMMAND_QUEUE_PRIORITY_HIGH],
       D3D12_COMMAND_QUEUE_PRIORITY_HIGH, True)]"
proof -
  define r0 :: init_outcome where
    "r0 = (False, 0, example_this, queueDesc_initializer, [Call_CreateDXGIFactory2])"
  define x0 where "x0 = ((no_factory_ext, 0x1000 :: uintptr_t, 0 :: UINT, example_this),
      queueDesc_initializer, r0)"
  define r1 where "r1 = (True, 65536 :: UINT, example_this\<lparr>this_ivshmemBase := 0x1000\<rparr>,
        queueDesc_initializer\<lparr>queueDesc_Priority := D3D12_COMMAND_QUEUE_PRIORITY_HIGH\<rparr>,
        [Call_CreateDXGIFactory2, Call_D3D12CreateDevice real_adapter,
         Call_CreateCommandQueue queueDesc_initializer,
         Call_CreateCommandQueue
           (queueDesc_initializer\<lparr>queueDesc_Priority := D3D12_COMMAND_QUEUE_PRIORITY_HIGH\<rparr>),
         Call_d12_commandGroupCreate, Call_OpenExistingHeapFromAddress 0x1000,
         Call_d12_backendInit])"
  define r2 where "r2 = (True, 65536 :: UINT, example_this\<lparr>this_ivshmemBase := 0x1000\<rparr>,
        queueDesc_initializer\<lparr>queueDesc_Priority := D3D12_COMMAND_QUEUE_PRIORITY_HIGH\<rparr>,
        [Call_CreateDXGIFactory2, Call_D3D12CreateDevice real_adapter,
         Call_CreateCommandQueue
           (queueDesc_initializer\<lparr>queueDesc_Priority := D3D12_COMMAND_QUEUE_PRIORITY_HIGH\<rparr>),
         Call_d12_commandGroupCreate, Call_OpenExistingHeapFromAddress 0x1000,
         Call_d12_backendInit])"
  define x1 where "x1 = ((init_ext E_FAIL S_OK, 0x1000 :: uintptr_t, 0 :: UINT, example_this),
      queueDesc_initializer, r1)"
  define q2 where
    "q2 = queueDesc_initializer\<lparr>queueDesc_Priority := D3D12_COMMAND_QUEUE_PRIORITY_HIGH\<rparr>"
  define x2 where "x2 = ((init_ext S_OK S_OK, 0x1000 :: uintptr_t, 0 :: UINT, example_this), q2, r2)"
  have run: "process_inits example_bring_ups = [x0, x1, x2]"
    by (simp add: example_bring_ups_run x0_def x1_def x2_def r0_def r1_def r2_def q2_def)
  have d0: "process_inits example_bring_ups =
      [] @ ((no_factory_ext, 0x1000, 0, example_this), queueDesc_initializer, r0) # [x1, x2]"
    by (simp add: run x0_def)
  have d1: "process_inits example_bring_ups =
      [x0] @ ((init_ext E_FAIL S_OK, 0x1000, 0, example_this), queueDesc_initializer, r1) # [x2]"
    by (simp add: run x1_def)
  have d2: "process_inits example_bring_ups =
      [x0, x1] @ ((init_ext S_OK S_OK, 0x1000, 0, example_this), q2, r2) # []"
    by (simp add: run x2_def)
  have f: "FAILED (CreateCommandQueue (init_ext E_FAIL S_OK) queueDesc_initializer)"
    by (simp add: example_queue initializer_priority FAILED_examples)
  have p2: "queueDesc_Priority q2 = D3D12_COMMAND_QUEUE_PRIORITY_HIGH"
    by (simp add: q2_def initializer_priority)
  from queue_priority_fallback [OF d0 refl refl refl] example_no_factory
  have 0: "queue_attempts (init_log r0) = [] \<and>
           init_queueDesc r0 = queueDesc_initializer \<and> \<not> init_result r0"
    by blast
  from queue_priority_fallback [OF d1 refl refl refl] example_reaches f
  have 1: "queue_attempts (init_log r1) =
             [D3D12_COMMAND_QUEUE_PRIORITY_GLOBAL_REALTIME, D3D12_COMMAND_QUEUE_PRIORITY_HIGH] \<and>
           init_queueDesc r1 = q2"
    unfolding q2_def by blast
  from queue_priority_fallback [OF d2 refl refl refl] example_reaches p2
  have 2: "queue_attempts (init_log r2) = [D3D12_COMMAND_QUEUE_PRIORITY_HIGH] \<and>
           init_queueDesc r2 = q2"
    by blast
  have res: "init_result r1" "init_result r2"
    by (simp_all add: init_result_def r1_def r2_def)
  show ?thesis
    unfolding run using 0 1 2 res p2
    by (simp add: x0_def x1_def x2_def initializer_priority)
qed

text \<open>
  The static description remembers the downgrade: after a bring-up rejected at both
  priorities, the next bring-up asks at high priority only, although a queue at
  real-time priority would now be created.
\<close>

theorem queue_priority_remembered_counterexample:
  "map (\<lambda>x. queue_attempts (init_log (snd (snd x))))
     (process_inits
        [(init_ext E_FAIL E_FAIL, 0x1000, 0, example_this),
         (init_ext S_OK S_OK, 0x1000, 0, example_this)]) =
     [[D3D12_COMMAND_QUEUE_PRIORITY_GLOBAL_REALTIME, D3D12_COMMAND_QUEUE_PRIORITY_HIGH],
      [D3D12_COMMAND_QUEUE_PRIORITY_HIGH]] \<and>
   \<not> FAILED (CreateCommandQueue (init_ext S_OK S_OK) queueDesc_initializer)"
  by (simp add: process_inits_def example_init retry_cases example_queue initializer_priority
      FAILED_examples init_queueDesc_def init_log_def)

end
